theory Spec2Isabelle
  imports Main "HOL-Library.Word"
begin

unbundle bit_operations_syntax

section \<open>The cache metadata checker (cache\_check)\<close>

text \<open>
  A shallow embedding of the checker of the cache metadata tool: the reporters, the
  option record, \<open>guarded_stat\<close>, \<open>clear_needs_check\<close>, \<open>metadata_check\<close>, \<open>check\<close> and
  \<open>check_with_exception_handling\<close>. The block layer, the superblock codec and the
  walkers of the arrays live in other files; what they answer for the path that is
  checked is read from a record \<open>world\<close>, and every call into them may throw. A run
  returns how it ends together with its trace: the lines it writes to \<open>cerr\<close> and the
  calls it makes, in order.
\<close>

subsection \<open>Error states\<close>

text \<open>\<open>base::error_state\<close>, the enumeration of \<open>base/error_state.h\<close>.\<close>

datatype error_state = NO_ERROR | NON_FATAL | FATAL

text \<open>The position of a level in the order \<open>NO_ERROR < NON_FATAL < FATAL\<close>.\<close>

fun error_level :: "error_state \<Rightarrow> nat" where
  "error_level NO_ERROR = 0"
| "error_level NON_FATAL = 1"
| "error_level FATAL = 2"

instantiation error_state :: linorder
begin

definition less_eq_error_state :: "error_state \<Rightarrow> error_state \<Rightarrow> bool" where
  "less_eq_error_state a b \<longleftrightarrow> error_level a \<le> error_level b"

definition less_error_state :: "error_state \<Rightarrow> error_state \<Rightarrow> bool" where
  "less_error_state a b \<longleftrightarrow> error_level a < error_level b"

instance
proof
  fix x y z :: error_state
  show "(x < y) = (x \<le> y \<and> \<not> y \<le> x)"
    by (auto simp: less_eq_error_state_def less_error_state_def)
  show "x \<le> x"
    by (simp add: less_eq_error_state_def)
  show "x \<le> y \<Longrightarrow> y \<le> z \<Longrightarrow> x \<le> z"
    by (simp add: less_eq_error_state_def)
  show "x \<le> y \<Longrightarrow> y \<le> x \<Longrightarrow> x = y"
    by (cases x; cases y) (simp_all add: less_eq_error_state_def)
  show "x \<le> y \<or> y \<le> x"
    by (auto simp: less_eq_error_state_def)
qed

end

text \<open>
  Modelled from the spec: \<open>combine_errors\<close> is declared in \<open>base/error_state.h\<close>, which is
  not among the sources. The specification says that it is a max over the total order
  \<open>NO_ERROR < NON_FATAL < FATAL\<close>.
\<close>

definition combine_errors :: "error_state \<Rightarrow> error_state \<Rightarrow> error_state" where
  "combine_errors lhs rhs = max lhs rhs"

subsection \<open>The diagnostic output\<close>

text \<open>
  What is streamed into an output line: literal text, a run of keys (\<open>d.keys_\<close>, a
  \<open>run<uint32_t>\<close> with optional bounds), or a number.
\<close>

type_synonym run32 = "32 word option \<times> 32 word option"

datatype out_item = Str string | Keys run32 | Num nat

text \<open>A line on \<open>cerr\<close>: its indentation and its items.\<close>

datatype line = Line nat "out_item list"

text \<open>
  \<open>nested_output\<close> of \<open>base/nested_output.h\<close> (not among the sources): an indenting
  writer over \<open>cerr\<close> that can be disabled; a disabled writer writes nothing. \<open>push\<close>
  indents by one step for the scope of the returned \<open>nest\<close>, so the model hands the
  pushed writer to the code of that scope.
\<close>

record nested_output =
  step :: nat
  enabled :: bool
  indent :: nat

definition nested_output_new :: "nat \<Rightarrow> nested_output" where
  "nested_output_new s = \<lparr>step = s, enabled = True, indent = 0\<rparr>"

definition disable :: "nested_output \<Rightarrow> nested_output" where
  "disable out = out\<lparr>enabled := False\<rparr>"

definition push :: "nested_output \<Rightarrow> nested_output" where
  "push out = out\<lparr>indent := indent out + step out\<rparr>"

subsection \<open>Damage reports\<close>

text \<open>
  The damage classes the visitors receive. \<open>d.get_desc()\<close> is the first argument;
  an invalid mapping carries \<open>cblock_\<close>, \<open>m_.oblock_\<close> and \<open>m_.flags_\<close>.
\<close>

datatype superblock_damage = Superblock_corrupt string | Superblock_invalid string

datatype mapping_array_damage =
    Missing_mappings string run32
  | Invalid_mapping string "32 word" "64 word" "32 word"

datatype hint_array_damage = Missing_hints string run32

text \<open>What a walk over a bitset hands to a \<open>bitset_visitor\<close>: a bit, or a run of missing bits.\<close>

datatype bitset_item = Bit "32 word" bool | Missing_bits run32

subsection \<open>Options and the superblock\<close>

text \<open>\<open>struct flags\<close>; \<open>flags_default\<close> is its constructor.\<close>

record flags =
  check_mappings :: bool
  check_hints :: bool
  check_discards :: bool
  ignore_non_fatal_errors :: bool
  quiet :: bool
  clear_needs_check_on_success :: bool

definition flags_default :: flags where
  "flags_default = \<lparr>check_mappings = True, check_hints = True, check_discards = True,
     ignore_non_fatal_errors = False, quiet = False, clear_needs_check_on_success = False\<rparr>"

type_synonym block_address = "64 word"

text \<open>
  Modelled from the spec: the struct \<open>superblock\<close> of \<open>caching/superblock.h\<close> is not among
  the sources. The fields are the ones the specification lists for block 0 and the
  checker reads: a flags word whose bit 0 is NEEDS_CHECK, the version, the roots (hint
  and discard root are 0 if absent, the dirty root is optional), the counts, the hint
  width and the policy name.
\<close>

record superblock =
  flags :: "32 word"
  version :: "32 word"
  mapping_root :: block_address
  hint_root :: block_address
  discard_root :: block_address
  dirty_root :: "block_address option"
  cache_blocks :: "32 word"
  discard_nr_blocks :: "64 word"
  policy_hint_size :: "32 word"
  policy_name :: string

text \<open>Modelled from the spec: bit 0 of the flags word is NEEDS_CHECK.\<close>

definition NEEDS_CHECK :: nat where
  "NEEDS_CHECK = 0"

definition get_flag :: "32 word \<Rightarrow> nat \<Rightarrow> bool" where
  "get_flag fl b = bit fl b"

definition clear_flag :: "32 word \<Rightarrow> nat \<Rightarrow> 32 word" where
  "clear_flag fl b = fl AND NOT (push_bit b 1)"

definition MD_BLOCK_SIZE :: nat where
  "MD_BLOCK_SIZE = 4096"

definition SUPERBLOCK_LOCATION :: block_address where
  "SUPERBLOCK_LOCATION = 0"

text \<open>Little-endian bytes of a 32-bit and of a 64-bit value.\<close>

definition le32 :: "32 word \<Rightarrow> 8 word list" where
  "le32 x = [ucast x, ucast (drop_bit 8 x), ucast (drop_bit 16 x), ucast (drop_bit 24 x)]"

definition le64 :: "64 word \<Rightarrow> 8 word list" where
  "le64 x = [ucast x, ucast (drop_bit 8 x), ucast (drop_bit 16 x), ucast (drop_bit 24 x),
     ucast (drop_bit 32 x), ucast (drop_bit 40 x), ucast (drop_bit 48 x), ucast (drop_bit 56 x)]"

text \<open>
  What the specification leaves open in the layout of block 0: the magic tag, the
  checksum function and the width of the policy name.
\<close>

record superblock_format =
  magic :: "32 word"
  checksum :: "8 word list \<Rightarrow> 32 word"
  policy_name_width :: nat

text \<open>
  Modelled from the spec: the codec of the superblock (\<open>read_superblock\<close>,
  \<open>write_superblock\<close> and the validator of block 0) is not among the sources. The
  specification lays block 0 out in little-endian: the first 4 bytes are a checksum of
  the remainder of the block, the next 4 a magic tag, the next 4 the version, then the
  flags word; the remainder holds the mapping root (8 bytes), the hint root (8 bytes),
  the discard root (8 bytes), the dirty root (8 bytes, present iff the version is at
  least 2, which is when the field is set), the cache-block count (4 bytes), the
  discard-block count (8 bytes), the policy-hint size (4 bytes) and the policy name
  (fixed width, NUL-padded); a block has 4096 bytes. \<open>superblock_block fmt sb\<close> is
  block 0 of a device whose superblock is \<open>sb\<close>: it is what \<open>read_superblock\<close> decodes
  when it returns \<open>sb\<close>, and what \<open>write_superblock\<close> puts on the device for \<open>sb\<close>.
\<close>

definition policy_name_bytes :: "nat \<Rightarrow> string \<Rightarrow> 8 word list" where
  "policy_name_bytes n name =
     map (\<lambda>c. word_of_nat (of_char c)) (take n name) @ replicate (n - length name) 0"

definition superblock_body :: "superblock_format \<Rightarrow> superblock \<Rightarrow> 8 word list" where
  "superblock_body fmt sb =
     le32 (magic fmt) @ le32 (version sb) @ le32 (flags sb) @
     le64 (mapping_root sb) @ le64 (hint_root sb) @ le64 (discard_root sb) @
     (case dirty_root sb of None \<Rightarrow> [] | Some root \<Rightarrow> le64 root) @
     le32 (cache_blocks sb) @ le64 (discard_nr_blocks sb) @ le32 (policy_hint_size sb) @
     policy_name_bytes (policy_name_width fmt) (policy_name sb)"

definition superblock_block :: "superblock_format \<Rightarrow> superblock \<Rightarrow> 8 word list" where
  "superblock_block fmt sb =
     (let body = superblock_body fmt sb;
          remainder = body @ replicate (MD_BLOCK_SIZE - 4 - length body) 0
      in le32 (checksum fmt remainder) @ remainder)"

subsection \<open>The world outside the checker\<close>

datatype file_type = S_IFREG | S_IFBLK | S_IFDIR | S_IFCHR | S_IFIFO | S_IFSOCK

fun S_ISREG :: "file_type \<Rightarrow> bool" where
  "S_ISREG m = (m = S_IFREG)"

fun S_ISBLK :: "file_type \<Rightarrow> bool" where
  "S_ISBLK m = (m = S_IFBLK)"

datatype open_mode = READ_ONLY | READ_WRITE

text \<open>The calls into the block layer and the walkers, in the order they are made.\<close>

datatype dev_op =
    Stat
  | Get_file_length
  | Open_bm open_mode
  | Check_superblock block_address
  | Read_superblock
  | Open_tm block_address
  | Check_mapping_array block_address "32 word" "32 word"
  | Construct_bitset block_address "64 word"
  | Check_hint_array "32 word" block_address "32 word"
  | Write_superblock superblock

text \<open>
  A walk of an external checker over one structure: the damage it hands to the
  visitor, in order, and the message of the exception it then throws, if any.
\<close>

type_synonym 'd walk = "'d list \<times> string option"

text \<open>
  The file or device behind the path, as the external code sees it. An \<open>Inl\<close> or \<open>Some\<close>
  message is the \<open>what()\<close> of an exception thrown by that call. The two bitset fields
  are the contents of the dirty and discard bitsets: what a walk over them would visit.
  The only call that changes the device is \<open>write_superblock\<close>, and it is the last call
  of a run, so the device is an argument of the run and the write is in its trace.
\<close>

record world =
  stat_result :: "string + file_type"
  file_length :: "string + nat"
  opening_bytes :: string
  open_bm_result :: "open_mode \<Rightarrow> string option"
  nr_blocks :: block_address
  superblock_walk :: "superblock_damage walk"
  disk_superblock :: "string + superblock"
  open_tm_result :: "string option"
  mapping_walk :: "mapping_array_damage walk"
  dirty_ctor_result :: "string option"
  dirty_bits :: "bitset_item list"
  hint_walk :: "hint_array_damage walk"
  discard_ctor_result :: "string option"
  discard_bits :: "bitset_item list"
  write_superblock_result :: "string option"

text \<open>What a run leaves behind, in order: a line on \<open>cerr\<close> or a call.\<close>

datatype event = Cerr line | Op dev_op

fun cerr_of :: "event list \<Rightarrow> line list" where
  "cerr_of [] = []"
| "cerr_of (Cerr l # evs) = l # cerr_of evs"
| "cerr_of (Op d # evs) = cerr_of evs"

fun ops_of :: "event list \<Rightarrow> dev_op list" where
  "ops_of [] = []"
| "ops_of (Cerr l # evs) = ops_of evs"
| "ops_of (Op d # evs) = d # ops_of evs"

text \<open>
  Modelled from the spec: the block manager and \<open>write_superblock\<close> are not among the
  sources. The specification says that releasing the superblock reference writes every
  dirty block other than the superblock and then the superblock, last; it is the only
  commit. No call of the checker other than \<open>write_superblock\<close> makes a block dirty, so the
  block writes that the device observes in a run are one write of block 0 for each
  \<open>write_superblock\<close>, with the superblock laid out as block 0.
\<close>

fun device_writes :: "superblock_format \<Rightarrow> dev_op list \<Rightarrow> (block_address \<times> 8 word list) list" where
  "device_writes fmt [] = []"
| "device_writes fmt (Write_superblock sb # ds) =
     (SUPERBLOCK_LOCATION, superblock_block fmt sb) # device_writes fmt ds"
| "device_writes fmt (d # ds) = device_writes fmt ds"

text \<open>
  How a call ends other than by returning: a \<open>std::exception\<close> with its message, or
  behaviour the language leaves undefined (dereferencing an empty optional, reading an
  uninitialised variable).
\<close>

datatype failure = Exception string | Undefined_behaviour

type_synonym 'a io = "world \<Rightarrow> (failure + 'a) \<times> event list"

definition io_return :: "'a \<Rightarrow> 'a io" where
  "io_return x w = (Inr x, [])"

definition io_throw :: "failure \<Rightarrow> 'a io" where
  "io_throw e w = (Inl e, [])"

text \<open>Sequencing: a failure of the first part skips the second.\<close>

definition io_bind :: "'a io \<Rightarrow> ('a \<Rightarrow> 'b io) \<Rightarrow> 'b io" where
  "io_bind m k w =
     (case m w of
        (Inl e, evs) \<Rightarrow> (Inl e, evs)
      | (Inr x, evs) \<Rightarrow> (case k x w of (r, evs') \<Rightarrow> (r, evs @ evs')))"

definition io_get :: "(world \<Rightarrow> 'a) \<Rightarrow> 'a io" where
  "io_get f w = (Inr (f w), [])"

definition io_op :: "dev_op \<Rightarrow> unit io" where
  "io_op d w = (Inr (), [Op d])"

text \<open>A call that throws when the world holds a message for it.\<close>

definition io_may_throw :: "(world \<Rightarrow> string option) \<Rightarrow> unit io" where
  "io_may_throw f w = (case f w of None \<Rightarrow> (Inr (), []) | Some msg \<Rightarrow> (Inl (Exception msg), []))"

definition io_result :: "(world \<Rightarrow> string + 'a) \<Rightarrow> 'a io" where
  "io_result f w = (case f w of Inl msg \<Rightarrow> (Inl (Exception msg), []) | Inr x \<Rightarrow> (Inr x, []))"

text \<open>
  \<open>out << ... << end_message()\<close>: what the writer puts on \<open>cerr\<close>, one line if it is
  enabled and nothing otherwise.
\<close>

definition emit :: "nested_output \<Rightarrow> out_item list \<Rightarrow> line list" where
  "emit out items = (if enabled out then [Line (indent out) items] else [])"

definition write_cerr :: "line list \<Rightarrow> unit io" where
  "write_cerr ls w = (Inr (), map Cerr ls)"

definition out_line :: "nested_output \<Rightarrow> out_item list \<Rightarrow> unit io" where
  "out_line out items = write_cerr (emit out items)"

subsection \<open>Reporters\<close>

text \<open>
  \<open>reporter_base\<close>: the accumulated error state. The writer \<open>out_\<close> is a reference to
  the one \<open>nested_output\<close> of \<open>metadata_check\<close>, so the visitors take it as an argument.
  A \<open>visit\<close> returns the lines it writes and the reporter as it leaves it.
\<close>

record reporter_base =
  err :: error_state

definition reporter_base_new :: reporter_base where
  "reporter_base_new = \<lparr>err = NO_ERROR\<rparr>"

definition get_error :: "reporter_base \<Rightarrow> error_state" where
  "get_error r = err r"

definition mplus_error :: "error_state \<Rightarrow> reporter_base \<Rightarrow> reporter_base" where
  "mplus_error e r = r\<lparr>err := combine_errors (err r) e\<rparr>"

fun superblock_reporter_visit ::
  "nested_output \<Rightarrow> superblock_damage \<Rightarrow> reporter_base \<Rightarrow> line list \<times> reporter_base" where
  "superblock_reporter_visit out (Superblock_corrupt desc) r =
     (emit out [Str ''superblock is corrupt''] @ emit (push out) [Str desc],
      mplus_error FATAL r)"
| "superblock_reporter_visit out (Superblock_invalid desc) r =
     (emit out [Str ''superblock is invalid''] @ emit (push out) [Str desc],
      mplus_error FATAL r)"

fun mapping_reporter_visit ::
  "nested_output \<Rightarrow> mapping_array_damage \<Rightarrow> reporter_base \<Rightarrow> line list \<times> reporter_base" where
  "mapping_reporter_visit out (Missing_mappings desc keys) r =
     (emit out [Str ''missing mappings '', Keys keys, Str '':''] @ emit (push out) [Str desc],
      mplus_error FATAL r)"
| "mapping_reporter_visit out (Invalid_mapping desc cblock oblock mflags) r =
     (emit out [Str ''invalid mapping:''] @
      emit (push out)
        [Str desc, Str '' [cblock = '', Num (unat cblock), Str '', oblock = '', Num (unat oblock),
         Str '', flags = '', Num (unat mflags), Str '']''],
      mplus_error FATAL r)"

fun hint_reporter_visit ::
  "nested_output \<Rightarrow> hint_array_damage \<Rightarrow> reporter_base \<Rightarrow> line list \<times> reporter_base" where
  "hint_reporter_visit out (Missing_hints desc keys) r =
     (emit out [Str ''missing mappings '', Keys keys, Str '':''] @ emit (push out) [Str desc],
      mplus_error FATAL r)"

fun discard_reporter_visit ::
  "nested_output \<Rightarrow> bitset_item \<Rightarrow> reporter_base \<Rightarrow> line list \<times> reporter_base" where
  "discard_reporter_visit out (Bit index val) r = ([], r)"
| "discard_reporter_visit out (Missing_bits keys) r =
     (emit out [Str ''missing discard bits '', Keys keys], mplus_error FATAL r)"

subsection \<open>The calls into the other files\<close>

text \<open>An external walker calls \<open>visit\<close> for each damage it finds, then returns or throws.\<close>

fun visit_all :: "('d \<Rightarrow> reporter_base \<Rightarrow> line list \<times> reporter_base) \<Rightarrow> 'd list
    \<Rightarrow> reporter_base \<Rightarrow> line list \<times> reporter_base" where
  "visit_all v [] r = ([], r)"
| "visit_all v (d # ds) r =
     (case v d r of (ls, r') \<Rightarrow>
      case visit_all v ds r' of (ls', r'') \<Rightarrow> (ls @ ls', r''))"

definition run_walk :: "('d \<Rightarrow> reporter_base \<Rightarrow> line list \<times> reporter_base) \<Rightarrow> 'd walk
    \<Rightarrow> reporter_base \<Rightarrow> reporter_base io" where
  "run_walk v wk r =
     (case visit_all v (fst wk) r of (ls, r') \<Rightarrow>
      io_bind (write_cerr ls) (\<lambda>_.
      case snd wk of None \<Rightarrow> io_return r' | Some msg \<Rightarrow> io_throw (Exception msg)))"

definition get_file_length :: "string \<Rightarrow> nat io" where
  "get_file_length path = io_bind (io_op Get_file_length) (\<lambda>_. io_result file_length)"

text \<open>
  Modelled from the spec: \<open>check_for_xml\<close> is not among the sources. The specification
  says that the opening bytes look like an XML prolog when they are \<open><?xml\<close> after
  optional whitespace or a byte order mark.
\<close>

definition is_space :: "char \<Rightarrow> bool" where
  "is_space c = (c = CHR '' '' \<or> c = CHR 0x09 \<or> c = CHR 0x0A \<or> c = CHR 0x0D)"

definition skip_bom :: "string \<Rightarrow> string" where
  "skip_bom bs = (if take 3 bs = [CHR 0xEF, CHR 0xBB, CHR 0xBF] then drop 3 bs else bs)"

definition looks_like_xml :: "string \<Rightarrow> bool" where
  "looks_like_xml bs = (take 5 (dropWhile is_space (skip_bom bs)) = ''<?xml'')"

definition check_for_xml :: "bool io" where
  "check_for_xml = io_get (\<lambda>w. looks_like_xml (opening_bytes w))"

definition open_bm :: "string \<Rightarrow> open_mode \<Rightarrow> unit io" where
  "open_bm path mode =
     io_bind (io_op (Open_bm mode)) (\<lambda>_. io_may_throw (\<lambda>w. open_bm_result w mode))"

definition get_nr_blocks :: "block_address io" where
  "get_nr_blocks = io_get nr_blocks"

definition check_superblock :: "block_address \<Rightarrow> nested_output \<Rightarrow> reporter_base
    \<Rightarrow> reporter_base io" where
  "check_superblock nr out r =
     io_bind (io_op (Check_superblock nr)) (\<lambda>_.
     io_bind (io_get superblock_walk) (\<lambda>wk.
     run_walk (superblock_reporter_visit out) wk r))"

definition read_superblock :: "superblock io" where
  "read_superblock = io_bind (io_op Read_superblock) (\<lambda>_. io_result disk_superblock)"

definition write_superblock :: "superblock \<Rightarrow> unit io" where
  "write_superblock sb =
     io_bind (io_op (Write_superblock sb)) (\<lambda>_. io_may_throw write_superblock_result)"

definition open_tm :: "block_address \<Rightarrow> unit io" where
  "open_tm loc = io_bind (io_op (Open_tm loc)) (\<lambda>_. io_may_throw open_tm_result)"

text \<open>The constructor of \<open>mapping_array\<close> followed by \<open>check_mapping_array\<close>.\<close>

definition check_mapping_array :: "block_address \<Rightarrow> 32 word \<Rightarrow> 32 word \<Rightarrow> nested_output
    \<Rightarrow> reporter_base \<Rightarrow> reporter_base io" where
  "check_mapping_array root nr_entries ver out r =
     io_bind (io_op (Check_mapping_array root nr_entries ver)) (\<lambda>_.
     io_bind (io_get mapping_walk) (\<lambda>wk.
     run_walk (mapping_reporter_visit out) wk r))"

text \<open>The constructor of \<open>hint_array\<close> followed by \<open>ha.check\<close>.\<close>

definition check_hint_array :: "32 word \<Rightarrow> block_address \<Rightarrow> 32 word \<Rightarrow> nested_output
    \<Rightarrow> reporter_base \<Rightarrow> reporter_base io" where
  "check_hint_array width root nr_entries out r =
     io_bind (io_op (Check_hint_array width root nr_entries)) (\<lambda>_.
     io_bind (io_get hint_walk) (\<lambda>wk.
     run_walk (hint_reporter_visit out) wk r))"

text \<open>The constructor of \<open>persistent_data::bitset\<close>; nothing is done with the object.\<close>

definition construct_bitset :: "block_address \<Rightarrow> 64 word \<Rightarrow> (world \<Rightarrow> string option)
    \<Rightarrow> unit io" where
  "construct_bitset root nr_bits res =
     io_bind (io_op (Construct_bitset root nr_bits)) (\<lambda>_. io_may_throw res)"

subsection \<open>The checker\<close>

definition guarded_stat :: "string \<Rightarrow> file_type io" where
  "guarded_stat path =
     io_bind (io_op Stat) (\<lambda>_.
     io_bind (io_get stat_result) (\<lambda>r.
     case r of
       Inl errno_string \<Rightarrow> io_throw (Exception (path @ '': '' @ errno_string))
     | Inr info \<Rightarrow> io_return info))"

definition clear_needs_check :: "string \<Rightarrow> unit io" where
  "clear_needs_check path =
     io_bind (open_bm path READ_WRITE) (\<lambda>_.
     io_bind read_superblock (\<lambda>sb.
     write_superblock (sb\<lparr>flags := clear_flag (flags sb) NEEDS_CHECK\<rparr>)))"

text \<open>The block \<open>if (fs.check_mappings_) ...\<close> of \<open>metadata_check\<close>.\<close>

definition examine_mappings :: "flags \<Rightarrow> nested_output \<Rightarrow> superblock \<Rightarrow> reporter_base
    \<Rightarrow> reporter_base io" where
  "examine_mappings fs out sb mapping_rep =
     (if check_mappings fs then
        io_bind (out_line out [Str ''examining mapping array'']) (\<lambda>_.
        io_bind (check_mapping_array (mapping_root sb) (cache_blocks sb) (version sb)
                   (push out) mapping_rep) (\<lambda>mapping_rep'.
        if 2 \<le> version sb then
          (case dirty_root sb of
             None \<Rightarrow> io_throw Undefined_behaviour
           | Some root \<Rightarrow>
               io_bind (construct_bitset root (ucast (cache_blocks sb)) dirty_ctor_result) (\<lambda>_.
               io_return mapping_rep'))
        else io_return mapping_rep'))
      else io_return mapping_rep)"

text \<open>The block \<open>if (fs.check_hints_) ...\<close>.\<close>

definition examine_hints :: "flags \<Rightarrow> nested_output \<Rightarrow> superblock \<Rightarrow> reporter_base
    \<Rightarrow> reporter_base io" where
  "examine_hints fs out sb hint_rep =
     (if check_hints fs then
        (if hint_root sb = 0 then
           io_bind (out_line out [Str ''no hint array present'']) (\<lambda>_. io_return hint_rep)
         else
           io_bind (out_line out [Str ''examining hint array'']) (\<lambda>_.
           check_hint_array (policy_hint_size sb) (hint_root sb) (cache_blocks sb)
             (push out) hint_rep))
      else io_return hint_rep)"

text \<open>The block \<open>if (fs.check_discards_) ...\<close>; the discard reporter is not handed to anything.\<close>

definition examine_discards :: "flags \<Rightarrow> nested_output \<Rightarrow> superblock \<Rightarrow> reporter_base
    \<Rightarrow> reporter_base io" where
  "examine_discards fs out sb discard_rep =
     (if check_discards fs then
        (if discard_root sb = 0 then
           io_bind (out_line out [Str ''no discard bitset present'']) (\<lambda>_. io_return discard_rep)
         else
           io_bind (out_line out [Str ''examining discard bitset'']) (\<lambda>_.
           io_bind (construct_bitset (discard_root sb) (discard_nr_blocks sb)
                      discard_ctor_result) (\<lambda>_.
           io_return discard_rep)))
      else io_return discard_rep)"

text \<open>The four reporters of \<open>metadata_check\<close>.\<close>

record reporters =
  sb_rep :: reporter_base
  mapping_rep :: reporter_base
  hint_rep :: reporter_base
  discard_rep :: reporter_base

text \<open>The return expression of \<open>metadata_check\<close>.\<close>

definition combine_reporters :: "reporters \<Rightarrow> error_state" where
  "combine_reporters rs =
     combine_errors (get_error (sb_rep rs))
       (combine_errors (get_error (mapping_rep rs))
          (combine_errors (get_error (hint_rep rs))
             (get_error (discard_rep rs))))"

text \<open>
  \<open>metadata_check\<close> up to its last statement: either one of the early \<open>return FATAL\<close>
  (\<open>Inl\<close>), or the reporters as they are when the results are combined (\<open>Inr\<close>). The
  second component is the reference parameter \<open>needs_check_set\<close>; \<open>None\<close> is a variable
  that has not been assigned.
\<close>

definition metadata_check_reporters :: "string \<Rightarrow> flags \<Rightarrow> bool option
    \<Rightarrow> ((error_state + reporters) \<times> bool option) io" where
  "metadata_check_reporters path fs needs_check_set =
     (let out = nested_output_new 2;
          out = (if quiet fs then disable out else out)
      in
      io_bind (get_file_length path) (\<lambda>len.
      if len < MD_BLOCK_SIZE then
        io_bind check_for_xml (\<lambda>xml.
        if xml then
          io_bind (out_line out
            [Str ''This looks like XML.  cache_check only checks the binary metadata format.''])
            (\<lambda>_. io_return (Inl FATAL, needs_check_set))
        else
          io_bind (out_line out [Str ''Metadata device/file too small.  Is this binary metadata?''])
            (\<lambda>_. io_return (Inl FATAL, needs_check_set)))
      else
        io_bind (open_bm path READ_ONLY) (\<lambda>_.
        io_bind (out_line out [Str ''examining superblock'']) (\<lambda>_.
        io_bind get_nr_blocks (\<lambda>nr.
        io_bind (check_superblock nr (push out) reporter_base_new) (\<lambda>sb_rep'.
        if get_error sb_rep' = FATAL then io_return (Inl FATAL, needs_check_set)
        else
          io_bind read_superblock (\<lambda>sb.
          io_bind (open_tm SUPERBLOCK_LOCATION) (\<lambda>_.
          io_bind (examine_mappings fs out sb reporter_base_new) (\<lambda>mapping_rep'.
          io_bind (examine_hints fs out sb reporter_base_new) (\<lambda>hint_rep'.
          io_bind (examine_discards fs out sb reporter_base_new) (\<lambda>discard_rep'.
          io_return
            (Inr \<lparr>sb_rep = sb_rep', mapping_rep = mapping_rep', hint_rep = hint_rep',
                  discard_rep = discard_rep'\<rparr>,
             Some (get_flag (flags sb) NEEDS_CHECK)))))))))))))"

definition metadata_check :: "string \<Rightarrow> flags \<Rightarrow> bool option
    \<Rightarrow> (error_state \<times> bool option) io" where
  "metadata_check path fs needs_check_set =
     io_bind (metadata_check_reporters path fs needs_check_set) (\<lambda>(r, needs_check_set').
     case r of
       Inl e \<Rightarrow> io_return (e, needs_check_set')
     | Inr rs \<Rightarrow> io_return (combine_reporters rs, needs_check_set'))"

text \<open>The flag \<open>success\<close> of \<open>check\<close>.\<close>

definition success :: "flags \<Rightarrow> error_state \<Rightarrow> bool" where
  "success fs e =
     (if ignore_non_fatal_errors fs then (if e = FATAL then False else True)
      else (if e = NO_ERROR then True else False))"

text \<open>
  \<open>check\<close>. \<open>check_result\<close> is its part after the call of \<open>metadata_check\<close>: the
  computation of \<open>success\<close>, the call of \<open>clear_needs_check\<close> and the return statement,
  for the error state and the flag that the call has set. The operator \<open>&&\<close> reads
  \<open>needs_check_set\<close> only when the two operands before it are true.
\<close>

definition check_result :: "string \<Rightarrow> flags \<Rightarrow> error_state \<times> bool option \<Rightarrow> int io" where
  "check_result path fs =
     (\<lambda>(e, needs_check_set).
       io_bind
         (if success fs e \<and> clear_needs_check_on_success fs then
            (case needs_check_set of
               None \<Rightarrow> io_throw Undefined_behaviour
             | Some b \<Rightarrow> if b then clear_needs_check path else io_return ())
          else io_return ()) (\<lambda>_.
       io_return (if e = NO_ERROR then 0 else 1)))"

definition check :: "string \<Rightarrow> flags \<Rightarrow> int io" where
  "check path fs =
     io_bind (guarded_stat path) (\<lambda>info.
     if \<not> S_ISREG info \<and> \<not> S_ISBLK info then
       io_throw (Exception (path @ '': '' @ ''Not a block device or regular file''))
     else
       io_bind (metadata_check path fs None) (check_result path fs))"

definition check_with_exception_handling :: "string \<Rightarrow> flags \<Rightarrow> int io" where
  "check_with_exception_handling path fs w =
     (case check path fs w of
        (Inr r, evs) \<Rightarrow> (Inr r, evs)
      | (Inl (Exception what), evs) \<Rightarrow>
          (Inr 1, if \<not> quiet fs then evs @ [Cerr (Line 0 [Str what])] else evs)
      | (Inl Undefined_behaviour, evs) \<Rightarrow> (Inl Undefined_behaviour, evs))"

subsection \<open>An example device\<close>

text \<open>
  A regular file of five blocks with valid metadata of version 2: ten cache blocks, a
  hint array, a discard bitset, a dirty bitset, no damage anywhere, and NEEDS_CHECK set.
\<close>

definition example_superblock :: superblock where
  "example_superblock =
     \<lparr>flags = 1, version = 2, mapping_root = 1, hint_root = 2, discard_root = 3,
      dirty_root = Some 4, cache_blocks = 10, discard_nr_blocks = 16, policy_hint_size = 4,
      policy_name = ''smq''\<rparr>"

definition example_device :: world where
  "example_device =
     \<lparr>stat_result = Inr S_IFREG, file_length = Inr 20480, opening_bytes = [],
      open_bm_result = (\<lambda>_. None), nr_blocks = 5, superblock_walk = ([], None),
      disk_superblock = Inr example_superblock, open_tm_result = None,
      mapping_walk = ([], None), dirty_ctor_result = None, dirty_bits = [],
      hint_walk = ([], None), discard_ctor_result = None, discard_bits = [],
      write_superblock_result = None\<rparr>"

text \<open>A format for the example: the magic tag, a checksum and the width of the policy name.\<close>

definition example_format :: superblock_format where
  "example_format =
     \<lparr>magic = 0x06142003, checksum = (\<lambda>bs. word_of_nat (length bs)), policy_name_width = 16\<rparr>"

section \<open>Properties\<close>

subsection \<open>Running the model: outcome and trace of a sequence\<close>

text \<open>
  The outcome (\<open>fst\<close>) and the trace (\<open>snd\<close>) of a sequence of calls are computed
  separately, call by call; the lemmas below are the rewrite rules for that, followed by
  the outcome of each block of \<open>metadata_check\<close> as a function of the device.
\<close>

lemma max_error_simps:
  "max NO_ERROR a = a" "max a NO_ERROR = a" "max FATAL a = FATAL" "max a FATAL = FATAL"
  by (cases a; simp add: max_def less_eq_error_state_def)+

lemma mplus_error_FATAL: "mplus_error FATAL r = r\<lparr>err := FATAL\<rparr>"
  by (simp add: mplus_error_def combine_errors_def max_error_simps)

lemma visit_all_reporter:
  assumes "\<And>d r. snd (v d r) = mplus_error FATAL r"
  shows "snd (visit_all v ds r) = (if ds = [] then r else mplus_error FATAL r)"
proof (induction ds arbitrary: r)
  case Nil
  show ?case by simp
next
  case (Cons d ds)
  have "snd (v d r) = mplus_error FATAL r" by (rule assms)
  with Cons.IH [of "snd (v d r)"] show ?case
    by (simp add: mplus_error_FATAL split_beta)
qed

lemma superblock_visit_snd: "snd (superblock_reporter_visit out d r) = mplus_error FATAL r"
  by (cases d) simp_all

lemma mapping_visit_snd: "snd (mapping_reporter_visit out d r) = mplus_error FATAL r"
  by (cases d) simp_all

lemma hint_visit_snd: "snd (hint_reporter_visit out d r) = mplus_error FATAL r"
  by (cases d) simp_all

lemmas visit_all_snd =
  visit_all_reporter [of "superblock_reporter_visit out", OF superblock_visit_snd]
  visit_all_reporter [of "mapping_reporter_visit out", OF mapping_visit_snd]
  visit_all_reporter [of "hint_reporter_visit out", OF hint_visit_snd] for out

lemma fst_io_bind:
  "fst (io_bind m k w) = (case fst (m w) of Inl e \<Rightarrow> Inl e | Inr x \<Rightarrow> fst (k x w))"
  by (simp add: io_bind_def split: prod.splits sum.splits)

lemma snd_io_bind:
  "snd (io_bind m k w) = (case fst (m w) of Inl e \<Rightarrow> snd (m w) | Inr x \<Rightarrow> snd (m w) @ snd (k x w))"
  by (simp add: io_bind_def split: prod.splits sum.splits)

lemma io_bind_assoc: "io_bind (io_bind m f) g = io_bind m (\<lambda>x. io_bind (f x) g)"
  by (rule ext) (simp add: io_bind_def split: prod.splits sum.splits)

lemma io_bind_if: "io_bind (if c then a else b) k = (if c then io_bind a k else io_bind b k)"
  by simp

lemma if_apply:
  "(if c then f else g) x = (if c then f x else g x)"
  "fst (if c then p else q) = (if c then fst p else fst q)"
  "snd (if c then p else q) = (if c then snd p else snd q)"
  by simp_all

lemma fst_prims:
  "fst (io_return x w) = Inr x"
  "fst (io_throw e w) = Inl e"
  "fst (io_get f w) = Inr (f w)"
  "fst (io_op d w) = Inr ()"
  "fst (io_may_throw g w) = (case g w of None \<Rightarrow> Inr () | Some msg \<Rightarrow> Inl (Exception msg))"
  "fst (io_result h w) = (case h w of Inl msg \<Rightarrow> Inl (Exception msg) | Inr y \<Rightarrow> Inr y)"
  "fst (write_cerr ls w) = Inr ()"
  "fst (out_line out items w) = Inr ()"
  by (simp_all add: io_return_def io_throw_def io_get_def io_op_def io_may_throw_def
      io_result_def write_cerr_def out_line_def split: option.splits sum.splits)

lemma snd_prims:
  "snd (io_return x w) = []"
  "snd (io_throw e w) = []"
  "snd (io_get f w) = []"
  "snd (io_op d w) = [Op d]"
  "snd (io_may_throw g w) = []"
  "snd (io_result h w) = []"
  "snd (write_cerr ls w) = map Cerr ls"
  "snd (out_line out items w) = map Cerr (emit out items)"
  by (simp_all add: io_return_def io_throw_def io_get_def io_op_def io_may_throw_def
      io_result_def write_cerr_def out_line_def split: option.splits sum.splits)

lemma fst_run_walk:
  "fst (run_walk v wk r w) =
     (case snd wk of None \<Rightarrow> Inr (snd (visit_all v (fst wk) r)) | Some msg \<Rightarrow> Inl (Exception msg))"
  by (simp add: run_walk_def fst_io_bind fst_prims split: prod.splits option.splits)

lemma snd_run_walk:
  "snd (run_walk v wk r w) = map Cerr (fst (visit_all v (fst wk) r))"
  by (simp add: run_walk_def snd_io_bind fst_prims snd_prims split: prod.splits option.splits)

lemma fst_bind_prims:
  "fst (io_bind (io_return x) ka w) = fst (ka x w)"
  "fst (io_bind (io_throw e) kc w) = Inl e"
  "fst (io_bind (io_get f) kb w) = fst (kb (f w) w)"
  "fst (io_bind (io_op d) k w) = fst (k () w)"
  "fst (io_bind (io_may_throw g) k w) =
     (case g w of None \<Rightarrow> fst (k () w) | Some msg \<Rightarrow> Inl (Exception msg))"
  "fst (io_bind (io_result h) k' w) =
     (case h w of Inl msg \<Rightarrow> Inl (Exception msg) | Inr y \<Rightarrow> fst (k' y w))"
  "fst (io_bind (write_cerr ls) k w) = fst (k () w)"
  "fst (io_bind (out_line out items) k w) = fst (k () w)"
  "fst (io_bind (run_walk v wk r) k'' w) =
     (case snd wk of None \<Rightarrow> fst (k'' (snd (visit_all v (fst wk) r)) w)
      | Some msg \<Rightarrow> Inl (Exception msg))"
  by (simp_all add: fst_io_bind fst_prims fst_run_walk split: option.splits sum.splits)

lemma snd_bind_prims:
  "snd (io_bind (io_return x) ka w) = snd (ka x w)"
  "snd (io_bind (io_throw e) kc w) = []"
  "snd (io_bind (io_get f) kb w) = snd (kb (f w) w)"
  "snd (io_bind (io_op d) k w) = Op d # snd (k () w)"
  "snd (io_bind (io_may_throw g) k w) =
     (case g w of None \<Rightarrow> snd (k () w) | Some msg \<Rightarrow> [])"
  "snd (io_bind (io_result h) k' w) =
     (case h w of Inl msg \<Rightarrow> [] | Inr y \<Rightarrow> snd (k' y w))"
  "snd (io_bind (write_cerr ls) k w) = map Cerr ls @ snd (k () w)"
  "snd (io_bind (out_line out items) k w) = map Cerr (emit out items) @ snd (k () w)"
  "snd (io_bind (run_walk v wk r) k'' w) =
     map Cerr (fst (visit_all v (fst wk) r)) @
     (case snd wk of None \<Rightarrow> snd (k'' (snd (visit_all v (fst wk) r)) w) | Some msg \<Rightarrow> [])"
  by (simp_all add: snd_io_bind fst_prims snd_prims fst_run_walk snd_run_walk
      split: option.splits sum.splits)

lemmas call_defs = get_file_length_def check_for_xml_def open_bm_def get_nr_blocks_def
  check_superblock_def read_superblock_def write_superblock_def open_tm_def
  check_mapping_array_def check_hint_array_def construct_bitset_def

lemmas case_apply =
  sum.case_distrib [of "\<lambda>m. io_bind m k" for k]
  option.case_distrib [of "\<lambda>m. io_bind m k" for k]
  sum.case_distrib [of "\<lambda>f. f x" for x]
  option.case_distrib [of "\<lambda>f. f x" for x]
  sum.case_distrib [of fst] option.case_distrib [of fst]
  sum.case_distrib [of snd] option.case_distrib [of snd]

lemmas exec_fst = call_defs io_bind_assoc io_bind_if if_apply case_apply fst_bind_prims
  fst_prims fst_run_walk

lemmas exec_snd = call_defs io_bind_assoc io_bind_if if_apply case_apply snd_bind_prims
  snd_prims snd_run_walk

lemma reporter_simps:
  "get_error reporter_base_new = NO_ERROR"
  "get_error (mplus_error FATAL r) = FATAL"
  by (simp_all add: get_error_def reporter_base_new_def mplus_error_FATAL)

lemma fst_examine_mappings:
  "fst (examine_mappings fs out sb r w) =
     (if check_mappings fs then
        (case snd (mapping_walk w) of
           Some msg \<Rightarrow> Inl (Exception msg)
         | None \<Rightarrow>
            (if 2 \<le> version sb then
               (case dirty_root sb of
                  None \<Rightarrow> Inl Undefined_behaviour
                | Some root \<Rightarrow>
                   (case dirty_ctor_result w of
                      Some msg \<Rightarrow> Inl (Exception msg)
                    | None \<Rightarrow> Inr (if fst (mapping_walk w) = [] then r else mplus_error FATAL r)))
             else Inr (if fst (mapping_walk w) = [] then r else mplus_error FATAL r)))
      else Inr r)"
  by (simp add: examine_mappings_def exec_fst visit_all_snd split: option.splits)

lemma fst_examine_hints:
  "fst (examine_hints fs out sb r w) =
     (if check_hints fs \<and> hint_root sb \<noteq> 0 then
        (case snd (hint_walk w) of
           Some msg \<Rightarrow> Inl (Exception msg)
         | None \<Rightarrow> Inr (if fst (hint_walk w) = [] then r else mplus_error FATAL r))
      else Inr r)"
  by (simp add: examine_hints_def exec_fst visit_all_snd split: option.splits)

lemma fst_examine_discards:
  "fst (examine_discards fs out sb r w) =
     (if check_discards fs \<and> discard_root sb \<noteq> 0 then
        (case discard_ctor_result w of
           Some msg \<Rightarrow> Inl (Exception msg)
         | None \<Rightarrow> Inr r)
      else Inr r)"
  by (simp add: examine_discards_def exec_fst split: option.splits)

lemma fst_metadata_check_reporters:
  "fst (metadata_check_reporters path fs nc w) =
     (case file_length w of
        Inl msg \<Rightarrow> Inl (Exception msg)
      | Inr len \<Rightarrow>
         if len < MD_BLOCK_SIZE then Inr (Inl FATAL, nc)
         else
          (case open_bm_result w READ_ONLY of
             Some msg \<Rightarrow> Inl (Exception msg)
           | None \<Rightarrow>
              (case snd (superblock_walk w) of
                 Some msg \<Rightarrow> Inl (Exception msg)
               | None \<Rightarrow>
                  if fst (superblock_walk w) \<noteq> [] then Inr (Inl FATAL, nc)
                  else
                   (case disk_superblock w of
                      Inl msg \<Rightarrow> Inl (Exception msg)
                    | Inr sb \<Rightarrow>
                       (case open_tm_result w of
                          Some msg \<Rightarrow> Inl (Exception msg)
                        | None \<Rightarrow>
                           (case fst (examine_mappings fs
                                   (if quiet fs then disable (nested_output_new 2)
                                    else nested_output_new 2) sb reporter_base_new w) of
                              Inl f \<Rightarrow> Inl f
                            | Inr mapping_rep' \<Rightarrow>
                               (case fst (examine_hints fs
                                      (if quiet fs then disable (nested_output_new 2)
                                       else nested_output_new 2) sb reporter_base_new w) of
                                  Inl f \<Rightarrow> Inl f
                                | Inr hint_rep' \<Rightarrow>
                                   (case fst (examine_discards fs
                                         (if quiet fs then disable (nested_output_new 2)
                                          else nested_output_new 2) sb reporter_base_new w) of
                                      Inl f \<Rightarrow> Inl f
                                    | Inr discard_rep' \<Rightarrow>
                                       Inr (Inr \<lparr>sb_rep = reporter_base_new,
                                                 mapping_rep = mapping_rep',
                                                 hint_rep = hint_rep',
                                                 discard_rep = discard_rep'\<rparr>,
                                            Some (get_flag (flags sb) NEEDS_CHECK))))))))))"
  unfolding metadata_check_reporters_def Let_def
  by (simp add: exec_fst visit_all_snd reporter_simps
        fst_io_bind [of "examine_mappings a b c d" for a b c d]
        fst_io_bind [of "examine_hints a b c d" for a b c d]
        fst_io_bind [of "examine_discards a b c d" for a b c d]
      cong: sum.case_cong option.case_cong if_cong)


lemma fst_metadata_check:
  "fst (metadata_check path fs nc w) =
     (case fst (metadata_check_reporters path fs nc w) of
        Inl f \<Rightarrow> Inl f
      | Inr p \<Rightarrow>
          (case fst p of
             Inl e \<Rightarrow> Inr (e, snd p)
           | Inr rs \<Rightarrow> Inr (combine_reporters rs, snd p)))"
  by (simp add: metadata_check_def fst_io_bind fst_prims split_beta
      split: sum.splits)

lemma snd_metadata_check:
  "snd (metadata_check path fs nc w) = snd (metadata_check_reporters path fs nc w)"
  by (simp add: metadata_check_def snd_io_bind snd_prims split_beta split: sum.splits)

lemma metadata_check_reporters_cases:
  assumes "fst (metadata_check_reporters path fs nc w) = Inr (r, nc')"
  shows "(r = Inl FATAL \<and> nc' = nc) \<or>
     (\<exists>sb m h d.
        disk_superblock w = Inr sb \<and> nc' = Some (get_flag (flags sb) NEEDS_CHECK) \<and>
        fst (examine_mappings fs (if quiet fs then disable (nested_output_new 2)
              else nested_output_new 2) sb reporter_base_new w) = Inr m \<and>
        fst (examine_hints fs (if quiet fs then disable (nested_output_new 2)
              else nested_output_new 2) sb reporter_base_new w) = Inr h \<and>
        fst (examine_discards fs (if quiet fs then disable (nested_output_new 2)
              else nested_output_new 2) sb reporter_base_new w) = Inr d \<and>
        r = Inr \<lparr>sb_rep = reporter_base_new, mapping_rep = m, hint_rep = h, discard_rep = d\<rparr>)"
  using assms unfolding fst_metadata_check_reporters
  by (auto split: sum.splits option.splits if_splits)

lemma examine_mappings_cases:
  assumes "fst (examine_mappings fs out sb r w) = Inr m"
  shows "m = (if check_mappings fs \<and> fst (mapping_walk w) \<noteq> [] then mplus_error FATAL r else r)"
  using assms unfolding fst_examine_mappings
  by (auto split: option.splits if_splits)

lemma examine_hints_cases:
  assumes "fst (examine_hints fs out sb r w) = Inr h"
  shows "h = (if check_hints fs \<and> hint_root sb \<noteq> 0 \<and> fst (hint_walk w) \<noteq> []
              then mplus_error FATAL r else r)"
  using assms unfolding fst_examine_hints
  by (auto split: option.splits if_splits)

lemma examine_discards_cases:
  assumes "fst (examine_discards fs out sb r w) = Inr d"
  shows "d = r"
  using assms unfolding fst_examine_discards
  by (auto split: option.splits if_splits)

lemma combine_reporters_simps:
  "combine_reporters \<lparr>sb_rep = reporter_base_new, mapping_rep = m, hint_rep = h,
      discard_rep = reporter_base_new\<rparr> = max (get_error m) (get_error h)"
  by (simp add: combine_reporters_def combine_errors_def reporter_simps max_error_simps)

text \<open>What metadata_check returns, when it returns.\<close>
lemma metadata_check_cases:
  assumes "fst (metadata_check path fs nc w) = Inr (e, nc')"
  shows "(e = FATAL \<and> nc' = nc) \<or>
     (\<exists>sb. disk_superblock w = Inr sb \<and> nc' = Some (get_flag (flags sb) NEEDS_CHECK) \<and>
        e = (if (check_mappings fs \<and> fst (mapping_walk w) \<noteq> []) \<or>
                (check_hints fs \<and> hint_root sb \<noteq> 0 \<and> fst (hint_walk w) \<noteq> [])
             then FATAL else NO_ERROR))"
proof -
  from assms obtain r where r: "fst (metadata_check_reporters path fs nc w) = Inr (r, nc')"
    and e: "e = (case r of Inl e' \<Rightarrow> e' | Inr rs \<Rightarrow> combine_reporters rs)"
    unfolding fst_metadata_check by (auto split: sum.splits)
  from metadata_check_reporters_cases [OF r] show ?thesis
  proof
    assume "r = Inl FATAL \<and> nc' = nc"
    with e show ?thesis by simp
  next
    assume "\<exists>sb m h d.
        disk_superblock w = Inr sb \<and> nc' = Some (get_flag (flags sb) NEEDS_CHECK) \<and>
        fst (examine_mappings fs (if quiet fs then disable (nested_output_new 2)
              else nested_output_new 2) sb reporter_base_new w) = Inr m \<and>
        fst (examine_hints fs (if quiet fs then disable (nested_output_new 2)
              else nested_output_new 2) sb reporter_base_new w) = Inr h \<and>
        fst (examine_discards fs (if quiet fs then disable (nested_output_new 2)
              else nested_output_new 2) sb reporter_base_new w) = Inr d \<and>
        r = Inr \<lparr>sb_rep = reporter_base_new, mapping_rep = m, hint_rep = h, discard_rep = d\<rparr>"
    then obtain sb m h d where sb: "disk_superblock w = Inr sb"
      and nc: "nc' = Some (get_flag (flags sb) NEEDS_CHECK)"
      and m: "fst (examine_mappings fs (if quiet fs then disable (nested_output_new 2)
              else nested_output_new 2) sb reporter_base_new w) = Inr m"
      and h: "fst (examine_hints fs (if quiet fs then disable (nested_output_new 2)
              else nested_output_new 2) sb reporter_base_new w) = Inr h"
      and d: "fst (examine_discards fs (if quiet fs then disable (nested_output_new 2)
              else nested_output_new 2) sb reporter_base_new w) = Inr d"
      and rs: "r = Inr \<lparr>sb_rep = reporter_base_new, mapping_rep = m, hint_rep = h, discard_rep = d\<rparr>"
      by blast
    have "e = max (get_error m) (get_error h)"
      using e rs examine_discards_cases [OF d] by (simp add: combine_reporters_simps)
    then have "e = (if (check_mappings fs \<and> fst (mapping_walk w) \<noteq> []) \<or>
                (check_hints fs \<and> hint_root sb \<noteq> 0 \<and> fst (hint_walk w) \<noteq> [])
             then FATAL else NO_ERROR)"
      unfolding examine_mappings_cases [OF m] examine_hints_cases [OF h]
      by (simp add: reporter_simps max_error_simps)
    with sb nc show ?thesis by blast
  qed
qed

lemma never_NON_FATAL:
  "fst (metadata_check path fs nc w) = Inr (e, nc') \<Longrightarrow> e = NO_ERROR \<or> e = FATAL"
  by (drule metadata_check_cases) (auto split: if_splits)

lemma fst_clear_needs_check:
  "fst (clear_needs_check path w) =
     (case open_bm_result w READ_WRITE of
        Some msg \<Rightarrow> Inl (Exception msg)
      | None \<Rightarrow>
         (case disk_superblock w of
            Inl msg \<Rightarrow> Inl (Exception msg)
          | Inr sb \<Rightarrow>
             (case write_superblock_result w of
                Some msg \<Rightarrow> Inl (Exception msg)
              | None \<Rightarrow> Inr ())))"
  unfolding clear_needs_check_def
  by (simp add: exec_fst split: sum.splits option.splits)

lemma snd_clear_needs_check:
  "snd (clear_needs_check path w) =
     Op (Open_bm READ_WRITE) #
     (case open_bm_result w READ_WRITE of
        Some msg \<Rightarrow> []
      | None \<Rightarrow>
         Op Read_superblock #
         (case disk_superblock w of
            Inl msg \<Rightarrow> []
          | Inr sb \<Rightarrow> [Op (Write_superblock (sb\<lparr>flags := clear_flag (flags sb) NEEDS_CHECK\<rparr>))]))"
  unfolding clear_needs_check_def
  by (simp add: exec_snd split: sum.splits option.splits)

lemma fst_check:
  "fst (check path fs w) =
     (case stat_result w of
        Inl errno_string \<Rightarrow> Inl (Exception (path @ '': '' @ errno_string))
      | Inr info \<Rightarrow>
          if \<not> S_ISREG info \<and> \<not> S_ISBLK info then
            Inl (Exception (path @ '': '' @ ''Not a block device or regular file''))
          else
            (case fst (metadata_check path fs None w) of
               Inl f \<Rightarrow> Inl f
             | Inr p \<Rightarrow>
                 if success fs (fst p) \<and> clear_needs_check_on_success fs then
                   (case snd p of
                      None \<Rightarrow> Inl Undefined_behaviour
                    | Some b \<Rightarrow>
                        if b then
                          (case fst (clear_needs_check path w) of
                             Inl f \<Rightarrow> Inl f
                           | Inr u \<Rightarrow> Inr (if fst p = NO_ERROR then 0 else 1))
                        else Inr (if fst p = NO_ERROR then 0 else 1))
                 else Inr (if fst p = NO_ERROR then 0 else 1)))"
  unfolding check_def check_result_def guarded_stat_def
  by (simp add: exec_fst fst_io_bind [of "metadata_check a b c" for a b c]
        fst_io_bind [of "clear_needs_check a" for a] split_beta
      cong: sum.case_cong option.case_cong if_cong)

lemma fst_check_with_exception_handling:
  "fst (check_with_exception_handling path fs w) =
     (case fst (check path fs w) of
        Inr r \<Rightarrow> Inr r
      | Inl (Exception what) \<Rightarrow> Inr 1
      | Inl Undefined_behaviour \<Rightarrow> Inl Undefined_behaviour)"
  by (simp add: check_with_exception_handling_def split: prod.splits sum.splits failure.splits)

lemma ops_of_simps:
  "ops_of (xs @ ys) = ops_of xs @ ops_of ys"
  "ops_of (map Cerr ls) = []"
  by (induction xs rule: ops_of.induct) (simp_all, induction ls, simp_all)

lemma cerr_of_simps:
  "cerr_of (xs @ ys) = cerr_of xs @ cerr_of ys"
  "cerr_of (map Cerr ls) = ls"
  by (induction xs rule: cerr_of.induct) (simp_all, induction ls, simp_all)

lemma fst_check_superblock:
  "fst (check_superblock nr out r w) =
     (case snd (superblock_walk w) of
        Some msg \<Rightarrow> Inl (Exception msg)
      | None \<Rightarrow> Inr (if fst (superblock_walk w) = [] then r else mplus_error FATAL r))"
  by (simp add: exec_fst visit_all_snd split: option.splits)

lemmas example_defs = example_device_def example_superblock_def flags_default_def

lemmas eval_fst = fst_metadata_check fst_metadata_check_reporters fst_examine_mappings
  fst_examine_hints fst_examine_discards fst_check fst_check_with_exception_handling
  fst_clear_needs_check MD_BLOCK_SIZE_def reporter_simps combine_reporters_def
  combine_errors_def max_error_simps success_def get_flag_def NEEDS_CHECK_def

subsection \<open>The calls of a run and the lines it writes\<close>

lemma snd_io_bind_factored:
  "snd (io_bind m k w) = snd (m w) @ (case fst (m w) of Inl e \<Rightarrow> [] | Inr x \<Rightarrow> snd (k x w))"
  by (simp add: io_bind_def split: prod.splits sum.splits)

lemmas ops_distrib =
  sum.case_distrib [of ops_of] option.case_distrib [of ops_of] if_distrib [of ops_of]
  ops_of_simps

lemma ops_examine_mappings:
  "ops_of (snd (examine_mappings fs out sb r w)) =
     (if check_mappings fs then
        Check_mapping_array (mapping_root sb) (cache_blocks sb) (version sb) #
        (case snd (mapping_walk w) of
           Some msg \<Rightarrow> []
         | None \<Rightarrow>
            (if 2 \<le> version sb then
               (case dirty_root sb of
                  None \<Rightarrow> []
                | Some root \<Rightarrow> [Construct_bitset root (ucast (cache_blocks sb))])
             else []))
      else [])"
  by (simp add: examine_mappings_def exec_snd ops_distrib split: option.splits)

lemma ops_examine_hints:
  "ops_of (snd (examine_hints fs out sb r w)) =
     (if check_hints fs \<and> hint_root sb \<noteq> 0 then
        [Check_hint_array (policy_hint_size sb) (hint_root sb) (cache_blocks sb)]
      else [])"
  by (simp add: examine_hints_def exec_snd ops_distrib split: option.splits)

lemma ops_examine_discards:
  "ops_of (snd (examine_discards fs out sb r w)) =
     (if check_discards fs \<and> discard_root sb \<noteq> 0 then
        [Construct_bitset (discard_root sb) (discard_nr_blocks sb)]
      else [])"
  by (simp add: examine_discards_def exec_snd ops_distrib split: option.splits)

lemma ops_metadata_check:
  "ops_of (snd (metadata_check path fs nc w)) =
     Get_file_length #
     (case file_length w of
        Inl msg \<Rightarrow> []
      | Inr len \<Rightarrow>
         if len < MD_BLOCK_SIZE then []
         else
          Open_bm READ_ONLY #
          (case open_bm_result w READ_ONLY of
             Some msg \<Rightarrow> []
           | None \<Rightarrow>
              Check_superblock (nr_blocks w) #
              (case snd (superblock_walk w) of
                 Some msg \<Rightarrow> []
               | None \<Rightarrow>
                  if fst (superblock_walk w) \<noteq> [] then []
                  else
                   Read_superblock #
                   (case disk_superblock w of
                      Inl msg \<Rightarrow> []
                    | Inr sb \<Rightarrow>
                       Open_tm SUPERBLOCK_LOCATION #
                       (case open_tm_result w of
                          Some msg \<Rightarrow> []
                        | None \<Rightarrow>
                           ops_of (snd (examine_mappings fs
                               (if quiet fs then disable (nested_output_new 2)
                                else nested_output_new 2) sb reporter_base_new w)) @
                           (case fst (examine_mappings fs
                                   (if quiet fs then disable (nested_output_new 2)
                                    else nested_output_new 2) sb reporter_base_new w) of
                              Inl f \<Rightarrow> []
                            | Inr mapping_rep' \<Rightarrow>
                               ops_of (snd (examine_hints fs
                                   (if quiet fs then disable (nested_output_new 2)
                                    else nested_output_new 2) sb reporter_base_new w)) @
                               (case fst (examine_hints fs
                                      (if quiet fs then disable (nested_output_new 2)
                                       else nested_output_new 2) sb reporter_base_new w) of
                                  Inl f \<Rightarrow> []
                                | Inr hint_rep' \<Rightarrow>
                                   ops_of (snd (examine_discards fs
                                       (if quiet fs then disable (nested_output_new 2)
                                        else nested_output_new 2) sb reporter_base_new w)))))))))"
  unfolding snd_metadata_check metadata_check_reporters_def Let_def
  by (simp add: exec_snd visit_all_snd reporter_simps ops_distrib
        snd_io_bind_factored [of "examine_mappings a b c d" for a b c d]
        snd_io_bind_factored [of "examine_hints a b c d" for a b c d]
        snd_io_bind_factored [of "examine_discards a b c d" for a b c d]
      cong: sum.case_cong option.case_cong if_cong)

lemma snd_check:
  "snd (check path fs w) =
     Op Stat #
     (case stat_result w of
        Inl errno_string \<Rightarrow> []
      | Inr info \<Rightarrow>
          if \<not> S_ISREG info \<and> \<not> S_ISBLK info then []
          else
            snd (metadata_check path fs None w) @
            (case fst (metadata_check path fs None w) of
               Inl f \<Rightarrow> []
             | Inr p \<Rightarrow>
                 if success fs (fst p) \<and> clear_needs_check_on_success fs then
                   (case snd p of
                      None \<Rightarrow> []
                    | Some b \<Rightarrow> if b then snd (clear_needs_check path w) else [])
                 else []))"
  unfolding check_def check_result_def guarded_stat_def
  by (simp add: exec_snd snd_io_bind_factored [of "metadata_check a b c" for a b c]
        snd_io_bind_factored [of "clear_needs_check a" for a] split_beta
      cong: sum.case_cong option.case_cong if_cong)

lemma snd_check_with_exception_handling:
  "snd (check_with_exception_handling path fs w) =
     snd (check path fs w) @
     (case fst (check path fs w) of
        Inl (Exception what) \<Rightarrow> if quiet fs then [] else [Cerr (Line 0 [Str what])]
      | _ \<Rightarrow> [])"
  by (simp add: check_with_exception_handling_def split: prod.splits sum.splits failure.splits)

lemma fst_metadata_check_quiet:
  "fst (metadata_check path (fs\<lparr>quiet := q\<rparr>) nc w) = fst (metadata_check path fs nc w)"
  by (simp add: fst_metadata_check fst_metadata_check_reporters fst_examine_mappings
      fst_examine_hints fst_examine_discards
      cong: sum.case_cong option.case_cong if_cong)

lemma ops_metadata_check_quiet:
  "ops_of (snd (metadata_check path (fs\<lparr>quiet := q\<rparr>) nc w)) =
   ops_of (snd (metadata_check path fs nc w))"
  by (simp add: ops_metadata_check ops_examine_mappings ops_examine_hints ops_examine_discards
      fst_examine_mappings fst_examine_hints fst_examine_discards
      cong: sum.case_cong option.case_cong if_cong)

lemma fst_check_quiet:
  "fst (check path (fs\<lparr>quiet := q\<rparr>) w) = fst (check path fs w)"
  by (simp add: fst_check fst_metadata_check_quiet success_def
      cong: sum.case_cong option.case_cong if_cong)

lemma ops_check_quiet:
  "ops_of (snd (check path (fs\<lparr>quiet := q\<rparr>) w)) = ops_of (snd (check path fs w))"
  by (simp add: snd_check ops_distrib fst_metadata_check_quiet ops_metadata_check_quiet
      success_def cong: sum.case_cong option.case_cong if_cong)

lemma metadata_check_ignores_dirty_bits:
  "metadata_check path fs nc (w\<lparr>dirty_bits := bits\<rparr>) = metadata_check path fs nc w"
proof (rule prod_eqI)
  show "fst (metadata_check path fs nc (w\<lparr>dirty_bits := bits\<rparr>)) =
        fst (metadata_check path fs nc w)"
    by (simp add: fst_metadata_check fst_metadata_check_reporters fst_examine_mappings
        fst_examine_hints fst_examine_discards
        cong: sum.case_cong option.case_cong if_cong)
  show "snd (metadata_check path fs nc (w\<lparr>dirty_bits := bits\<rparr>)) =
        snd (metadata_check path fs nc w)"
    unfolding snd_metadata_check metadata_check_reporters_def Let_def examine_mappings_def
      examine_hints_def examine_discards_def
    by (simp add: exec_snd cong: sum.case_cong option.case_cong if_cong)
qed

lemma metadata_check_ignores_discard_bits:
  "metadata_check path fs nc (w\<lparr>discard_bits := bits\<rparr>) = metadata_check path fs nc w"
proof (rule prod_eqI)
  show "fst (metadata_check path fs nc (w\<lparr>discard_bits := bits\<rparr>)) =
        fst (metadata_check path fs nc w)"
    by (simp add: fst_metadata_check fst_metadata_check_reporters fst_examine_mappings
        fst_examine_hints fst_examine_discards
        cong: sum.case_cong option.case_cong if_cong)
  show "snd (metadata_check path fs nc (w\<lparr>discard_bits := bits\<rparr>)) =
        snd (metadata_check path fs nc w)"
    unfolding snd_metadata_check metadata_check_reporters_def Let_def examine_mappings_def
      examine_hints_def examine_discards_def
    by (simp add: exec_snd cong: sum.case_cong option.case_cong if_cong)
qed

lemma notin_bind:
  "ev \<notin> set (snd (m w)) \<Longrightarrow> (\<And>x. ev \<notin> set (snd (k x w))) \<Longrightarrow> ev \<notin> set (snd (io_bind m k w))"
  by (simp add: snd_io_bind_factored split: sum.splits)

lemma notin_if:
  "(c \<Longrightarrow> ev \<notin> set (snd (a w))) \<Longrightarrow> (\<not> c \<Longrightarrow> ev \<notin> set (snd (b w)))
   \<Longrightarrow> ev \<notin> set (snd ((if c then a else b) w))"
  by simp

lemma notin_case_option:
  "(opt = None \<Longrightarrow> ev \<notin> set (snd (a w))) \<Longrightarrow> (\<And>x. opt = Some x \<Longrightarrow> ev \<notin> set (snd (b x w)))
   \<Longrightarrow> ev \<notin> set (snd ((case opt of None \<Rightarrow> a | Some x \<Rightarrow> b x) w))"
  by (simp split: option.splits)

lemma notin_case_sum:
  "(\<And>x. s = Inl x \<Longrightarrow> ev \<notin> set (snd (a x w))) \<Longrightarrow> (\<And>x. s = Inr x \<Longrightarrow> ev \<notin> set (snd (b x w)))
   \<Longrightarrow> ev \<notin> set (snd ((case s of Inl x \<Rightarrow> a x | Inr x \<Rightarrow> b x) w))"
  by (simp split: sum.splits)

lemma notin_case_prod:
  "(\<And>x y. p = (x, y) \<Longrightarrow> ev \<notin> set (snd (f x y w)))
   \<Longrightarrow> ev \<notin> set (snd ((case p of (x, y) \<Rightarrow> f x y) w))"
  by (simp split: prod.splits)

lemma notin_prims:
  "ev \<notin> set (snd (io_return x w))"
  "ev \<notin> set (snd (io_throw e w))"
  "ev \<notin> set (snd (io_get f w))"
  "ev \<notin> set (snd (io_may_throw g w))"
  "ev \<notin> set (snd (io_result h w))"
  "Cerr l \<notin> set (snd (io_op d w))"
  by (simp_all add: snd_prims)

lemma notin_out_line:
  "items \<noteq> items' \<Longrightarrow> Cerr (Line i items') \<notin> set (snd (out_line out items w))"
  by (auto simp: snd_prims emit_def)

lemma notin_run_walk:
  "l \<notin> set (fst (visit_all v (fst wk) r)) \<Longrightarrow> Cerr l \<notin> set (snd (run_walk v wk r w))"
  by (auto simp: snd_run_walk)

lemma visit_all_lines:
  assumes "\<And>d r. l \<notin> set (fst (v d r))"
  shows "l \<notin> set (fst (visit_all v ds r))"
  using assms by (induction ds arbitrary: r) (simp_all add: split_beta)

lemma no_discard_line_visits:
  "Line i [Str ''missing discard bits '', Keys k] \<notin> set (fst (superblock_reporter_visit out sd r))"
  "Line i [Str ''missing discard bits '', Keys k] \<notin> set (fst (mapping_reporter_visit out mdam r))"
  "Line i [Str ''missing discard bits '', Keys k] \<notin> set (fst (hint_reporter_visit out hdam r))"
proof -
  show "Line i [Str ''missing discard bits '', Keys k] \<notin> set (fst (superblock_reporter_visit out sd r))"
    by (cases sd) (simp_all add: emit_def)
  show "Line i [Str ''missing discard bits '', Keys k] \<notin> set (fst (mapping_reporter_visit out mdam r))"
    by (cases mdam) (simp_all add: emit_def)
  show "Line i [Str ''missing discard bits '', Keys k] \<notin> set (fst (hint_reporter_visit out hdam r))"
    by (cases hdam) (simp_all add: emit_def)
qed

lemma no_discard_line:
  "Cerr (Line i [Str ''missing discard bits '', Keys k]) \<notin> set (snd (metadata_check path fs nc w))"
  unfolding metadata_check_def metadata_check_reporters_def Let_def examine_mappings_def
    examine_hints_def examine_discards_def call_defs
  by (intro notin_bind notin_if notin_case_option notin_case_sum notin_case_prod notin_prims
      notin_out_line notin_run_walk visit_all_lines no_discard_line_visits; simp)

lemma Op_in_set: "Op d \<in> set evs \<longleftrightarrow> d \<in> set (ops_of evs)"
  by (induction evs rule: ops_of.induct) auto

lemma metadata_check_opens_read_only:
  "Op (Open_bm READ_WRITE) \<notin> set (snd (metadata_check path fs nc w))"
  unfolding metadata_check_def metadata_check_reporters_def Let_def examine_mappings_def
    examine_hints_def examine_discards_def call_defs
  by (intro notin_bind notin_if notin_case_option notin_case_sum notin_case_prod notin_prims;
      simp add: snd_prims snd_run_walk image_iff)

lemma needs_check_set_assigned:
  assumes "fst (metadata_check path fs None w) = Inr (e, nc)" and "success fs e"
  shows "\<exists>b. nc = Some b"
  using metadata_check_cases [OF assms(1)] assms(2)
  by (auto simp: success_def split: if_splits)

lemma clear_flag_bit:
  "get_flag (clear_flag fl NEEDS_CHECK) n \<longleftrightarrow> n \<noteq> NEEDS_CHECK \<and> get_flag fl n"
  by (auto simp: get_flag_def clear_flag_def NEEDS_CHECK_def bit_simps
      dest: bit_imp_le_length)


subsection \<open>The error states form a join semilattice\<close>

text \<open>
  C2. \<open>combine_errors\<close> is the max over \<open>NO_ERROR < NON_FATAL < FATAL\<close>; it is
  associative, commutative and idempotent and \<open>NO_ERROR\<close> is its identity;
  \<open>mplus_error\<close> joins the reporter's state with the new one; the nested combination
  that ends \<open>metadata_check\<close> is the maximum of the four reporter states, whatever the
  grouping, and that maximum is what \<open>metadata_check\<close> returns when it reaches its last
  statement.
\<close>

theorem combine_errors_is_join:
  "combine_errors a b = max a b
   \<and> NO_ERROR < NON_FATAL \<and> NON_FATAL < FATAL
   \<and> combine_errors (combine_errors a b) c = combine_errors a (combine_errors b c)
   \<and> combine_errors a b = combine_errors b a
   \<and> combine_errors a a = a
   \<and> combine_errors NO_ERROR a = a \<and> combine_errors a NO_ERROR = a
   \<and> get_error (mplus_error e r) = max (get_error r) e
   \<and> combine_reporters rs =
       Max {get_error (sb_rep rs), get_error (mapping_rep rs), get_error (hint_rep rs),
            get_error (discard_rep rs)}
   \<and> combine_reporters rs =
       combine_errors (combine_errors (combine_errors (get_error (sb_rep rs))
         (get_error (mapping_rep rs))) (get_error (hint_rep rs))) (get_error (discard_rep rs))
   \<and> fst (metadata_check path fs nc w) =
       (case fst (metadata_check_reporters path fs nc w) of
          Inl f \<Rightarrow> Inl f
        | Inr (Inl e, n) \<Rightarrow> Inr (e, n)
        | Inr (Inr rs, n) \<Rightarrow>
            Inr (Max {get_error (sb_rep rs), get_error (mapping_rep rs),
                      get_error (hint_rep rs), get_error (discard_rep rs)}, n))"
proof -
  have is_max: "combine_errors a b = max a b"
    by (simp add: combine_errors_def)
  have order: "NO_ERROR < NON_FATAL \<and> NON_FATAL < FATAL"
    by (simp add: less_error_state_def)
  have laws: "combine_errors (combine_errors a b) c = combine_errors a (combine_errors b c)
      \<and> combine_errors a b = combine_errors b a \<and> combine_errors a a = a
      \<and> combine_errors NO_ERROR a = a \<and> combine_errors a NO_ERROR = a"
    by (simp add: combine_errors_def max.assoc max.commute max.left_commute max_error_simps)
  have mplus: "get_error (mplus_error e r) = max (get_error r) e"
    by (simp add: get_error_def mplus_error_def combine_errors_def)
  have join: "combine_reporters x =
       Max {get_error (sb_rep x), get_error (mapping_rep x), get_error (hint_rep x),
            get_error (discard_rep x)}" for x
    by (simp add: combine_reporters_def combine_errors_def)
  have regroup: "combine_reporters rs =
       combine_errors (combine_errors (combine_errors (get_error (sb_rep rs))
         (get_error (mapping_rep rs))) (get_error (hint_rep rs))) (get_error (discard_rep rs))"
    by (simp add: combine_reporters_def combine_errors_def max.assoc max.commute
        max.left_commute)
  have whole: "fst (metadata_check path fs nc w) =
       (case fst (metadata_check_reporters path fs nc w) of
          Inl f \<Rightarrow> Inl f
        | Inr (Inl e, n) \<Rightarrow> Inr (e, n)
        | Inr (Inr rs, n) \<Rightarrow>
            Inr (Max {get_error (sb_rep rs), get_error (mapping_rep rs),
                      get_error (hint_rep rs), get_error (discard_rep rs)}, n))"
    by (simp add: fst_metadata_check join split: prod.splits sum.splits)
  from is_max order laws mplus join [of rs] regroup whole show ?thesis
    by (elim conjE, intro conjI) assumption+
qed

subsection \<open>The exit code\<close>




subsection \<open>A file shorter than one block\<close>

lemma metadata_check_short:
  assumes "file_length w = Inr len" and "len < 4096"
  shows "fst (metadata_check path fs nc w) = Inr (FATAL, nc)"
  using assms by (simp add: fst_metadata_check fst_metadata_check_reporters MD_BLOCK_SIZE_def)

text \<open>
  C3. When the file is shorter than one block of 4096 bytes, \<open>metadata_check\<close> returns
  FATAL; the only call it makes is the one that asks for the length, so no block manager
  is opened; unless \<open>quiet\<close> is set it writes one line, that the file looks like XML when
  the opening bytes are an XML prolog and that the metadata is too small otherwise; and
  the process exits with 1.
\<close>

theorem short_file_is_fatal:
  assumes "file_length w = Inr len" and "len < 4096"
  shows "metadata_check path fs nc w =
           (Inr (FATAL, nc),
            Op Get_file_length #
            (if quiet fs then []
             else [Cerr (Line 0 [Str (if looks_like_xml (opening_bytes w)
                 then ''This looks like XML.  cache_check only checks the binary metadata format.''
                 else ''Metadata device/file too small.  Is this binary metadata?'')])]))
         \<and> fst (check_with_exception_handling path fs w) = Inr 1"
proof -
  have res: "fst (metadata_check path fs nc' w) = Inr (FATAL, nc')" for nc'
    using assms by (rule metadata_check_short)
  have evs: "snd (metadata_check path fs nc w) =
            Op Get_file_length #
            (if quiet fs then []
             else [Cerr (Line 0 [Str (if looks_like_xml (opening_bytes w)
                 then ''This looks like XML.  cache_check only checks the binary metadata format.''
                 else ''Metadata device/file too small.  Is this binary metadata?'')])])"
    using assms unfolding snd_metadata_check metadata_check_reporters_def Let_def
    by (simp add: exec_snd MD_BLOCK_SIZE_def emit_def disable_def nested_output_new_def)
  have exit: "fst (check_with_exception_handling path fs w) = Inr 1"
    by (simp add: fst_check_with_exception_handling fst_check res success_def fst_prims
        split: sum.splits)
  from res [of nc] evs exit show ?thesis
    by (simp add: prod_eq_iff)
qed


theorem short_file_is_fatal_witness:
  "file_length (example_device\<lparr>file_length := Inr 0\<rparr>) = Inr 0 \<and> (0::nat) < 4096
   \<and> metadata_check ''meta.bin'' flags_default None (example_device\<lparr>file_length := Inr 0\<rparr>) =
       (Inr (FATAL, None),
        [Op Get_file_length,
         Cerr (Line 0 [Str ''Metadata device/file too small.  Is this binary metadata?''])])
   \<and> fst (check_with_exception_handling ''meta.bin'' flags_default
        (example_device\<lparr>file_length := Inr 0\<rparr>)) = Inr 1"
proof -
  have h1: "file_length (example_device\<lparr>file_length := Inr 0\<rparr>) = Inr 0" by simp
  have h2: "(0::nat) < 4096" by simp
  from short_file_is_fatal [OF h1 h2, of "''meta.bin''" flags_default None] show ?thesis
    by (simp add: example_defs looks_like_xml_def skip_bom_def)
qed


subsection \<open>A corrupt or invalid superblock\<close>

text \<open>
  C4. When the superblock reporter's state is FATAL after \<open>check_superblock\<close>,
  \<open>metadata_check\<close> returns FATAL at once: the calls of the run are the length query,
  the opening of the block manager and the superblock check, so the superblock fields
  are not read, no transaction manager is opened and nothing is walked.
\<close>

theorem corrupt_superblock_stops_check:
  assumes "file_length w = Inr len" and "\<not> len < 4096"
    and "open_bm_result w READ_ONLY = None"
    and "fst (check_superblock (nr_blocks w)
           (push (if quiet fs then disable (nested_output_new 2) else nested_output_new 2))
           reporter_base_new w) = Inr sb_rep'"
    and "get_error sb_rep' = FATAL"
  shows "fst (metadata_check path fs nc w) = Inr (FATAL, nc)
         \<and> ops_of (snd (metadata_check path fs nc w)) =
             [Get_file_length, Open_bm READ_ONLY, Check_superblock (nr_blocks w)]"
proof -
  from assms(4,5) have walk: "snd (superblock_walk w) = None" "fst (superblock_walk w) \<noteq> []"
    by (auto simp: fst_check_superblock reporter_simps split: option.splits if_splits)
  have res: "fst (metadata_check path fs nc w) = Inr (FATAL, nc)"
    using assms(1-3) walk
    by (simp add: fst_metadata_check fst_metadata_check_reporters MD_BLOCK_SIZE_def)
  have evs: "ops_of (snd (metadata_check path fs nc w)) =
             [Get_file_length, Open_bm READ_ONLY, Check_superblock (nr_blocks w)]"
    using assms(1-3) walk
    unfolding snd_metadata_check metadata_check_reporters_def Let_def
    by (simp add: exec_snd visit_all_snd reporter_simps ops_of_simps MD_BLOCK_SIZE_def)
  from res evs show ?thesis by simp
qed

theorem corrupt_superblock_stops_check_witness:
  "file_length (example_device\<lparr>superblock_walk := ([Superblock_corrupt ''bad checksum''], None)\<rparr>)
     = Inr 20480
   \<and> \<not> (20480::nat) < 4096
   \<and> fst (metadata_check ''meta.bin'' flags_default None
        (example_device\<lparr>superblock_walk := ([Superblock_corrupt ''bad checksum''], None)\<rparr>)) =
       Inr (FATAL, None)
   \<and> ops_of (snd (metadata_check ''meta.bin'' flags_default None
        (example_device\<lparr>superblock_walk := ([Superblock_corrupt ''bad checksum''], None)\<rparr>))) =
       [Get_file_length, Open_bm READ_ONLY, Check_superblock 5]"
proof -
  let ?w = "example_device\<lparr>superblock_walk := ([Superblock_corrupt ''bad checksum''], None)\<rparr>"
  have h1: "file_length ?w = Inr 20480" by (simp add: example_defs)
  have h2: "\<not> (20480::nat) < 4096" by simp
  have h3: "open_bm_result ?w READ_ONLY = None" by (simp add: example_defs)
  have h4: "fst (check_superblock (nr_blocks ?w)
           (push (if quiet flags_default then disable (nested_output_new 2)
                  else nested_output_new 2))
           reporter_base_new ?w) = Inr (mplus_error FATAL reporter_base_new)"
    by (simp add: fst_check_superblock)
  have h5: "get_error (mplus_error FATAL reporter_base_new) = FATAL"
    by (simp add: reporter_simps)
  from corrupt_superblock_stops_check [OF h1 h2 h3 h4 h5, of "''meta.bin''" None] h1 h2
  show ?thesis by (simp add: example_defs)
qed


subsection \<open>Visited damage is fatal\<close>

text \<open>
  C5. Each visit of a damage report (missing mappings, an invalid mapping, missing
  hints, missing discard bits) leaves the reporter's state at FATAL, the join of its
  previous state with FATAL; so when a walk that \<open>metadata_check\<close> runs visits damage of
  the mapping array or of the hint array, the overall result is FATAL.
\<close>

theorem visited_damage_is_fatal:
  "get_error (snd (mapping_reporter_visit out mdam r)) = combine_errors (get_error r) FATAL
   \<and> get_error (snd (mapping_reporter_visit out mdam r)) = FATAL
   \<and> get_error (snd (hint_reporter_visit out hdam r)) = combine_errors (get_error r) FATAL
   \<and> get_error (snd (hint_reporter_visit out hdam r)) = FATAL
   \<and> get_error (snd (discard_reporter_visit out (Missing_bits keys) r)) =
        combine_errors (get_error r) FATAL
   \<and> get_error (snd (discard_reporter_visit out (Missing_bits keys) r)) = FATAL
   \<and> (fst (metadata_check path fs nc w) = Inr (e, nc') \<and> check_mappings fs
        \<and> fst (mapping_walk w) \<noteq> [] \<longrightarrow> e = FATAL)
   \<and> (fst (metadata_check path fs nc w) = Inr (e, nc') \<and> check_hints fs
        \<and> disk_superblock w = Inr sb \<and> hint_root sb \<noteq> 0 \<and> fst (hint_walk w) \<noteq> []
        \<longrightarrow> e = FATAL)"
proof -
  have join: "combine_errors (get_error r) FATAL = FATAL"
    by (simp add: combine_errors_def max_error_simps)
  have visits: "get_error (snd (mapping_reporter_visit out mdam r)) = FATAL"
    "get_error (snd (hint_reporter_visit out hdam r)) = FATAL"
    "get_error (snd (discard_reporter_visit out (Missing_bits keys) r)) = FATAL"
    by (simp_all add: mapping_visit_snd hint_visit_snd reporter_simps)
  have mappings: "e = FATAL"
    if "fst (metadata_check path fs nc w) = Inr (e, nc')" "check_mappings fs"
      "fst (mapping_walk w) \<noteq> []"
    using metadata_check_cases [OF that(1)] that(2,3) by auto
  have hints: "e = FATAL"
    if "fst (metadata_check path fs nc w) = Inr (e, nc')" "check_hints fs"
      "disk_superblock w = Inr sb" "hint_root sb \<noteq> 0" "fst (hint_walk w) \<noteq> []"
    using metadata_check_cases [OF that(1)] that(2-5) by auto
  from join visits mappings hints show ?thesis
    by simp
qed


theorem visited_damage_is_fatal_witness:
  "fst (metadata_check ''meta.bin'' flags_default None
     (example_device\<lparr>mapping_walk := ([Missing_mappings ''missing'' (Some 9, Some 10)], None)\<rparr>))
     = Inr (FATAL, Some True)
   \<and> check_mappings flags_default
   \<and> fst (mapping_walk
        (example_device\<lparr>mapping_walk := ([Missing_mappings ''missing'' (Some 9, Some 10)], None)\<rparr>))
      \<noteq> []
   \<and> fst (metadata_check ''meta.bin'' flags_default None
     (example_device\<lparr>hint_walk := ([Missing_hints ''missing'' (Some 0, Some 4)], None)\<rparr>))
     = Inr (FATAL, Some True)
   \<and> check_hints flags_default
   \<and> disk_superblock (example_device\<lparr>hint_walk := ([Missing_hints ''missing'' (Some 0, Some 4)], None)\<rparr>)
      = Inr example_superblock
   \<and> hint_root example_superblock \<noteq> 0
   \<and> fst (hint_walk
        (example_device\<lparr>hint_walk := ([Missing_hints ''missing'' (Some 0, Some 4)], None)\<rparr>))
      \<noteq> []"
proof -
  let ?wm = "example_device\<lparr>mapping_walk := ([Missing_mappings ''missing'' (Some 9, Some 10)], None)\<rparr>"
  let ?wh = "example_device\<lparr>hint_walk := ([Missing_hints ''missing'' (Some 0, Some 4)], None)\<rparr>"
  obtain e1 n1 where m: "fst (metadata_check ''meta.bin'' flags_default None ?wm) = Inr (e1, n1)"
    and n1: "n1 = Some True"
    by (simp add: eval_fst example_defs)
  obtain e2 n2 where h: "fst (metadata_check ''meta.bin'' flags_default None ?wh) = Inr (e2, n2)"
    and n2: "n2 = Some True"
    by (simp add: eval_fst example_defs)
  have side: "check_mappings flags_default" "fst (mapping_walk ?wm) \<noteq> []"
    "check_hints flags_default" "disk_superblock ?wh = Inr example_superblock"
    "hint_root example_superblock \<noteq> 0" "fst (hint_walk ?wh) \<noteq> []"
    by (simp_all add: example_defs)
  from visited_damage_is_fatal [where path = "''meta.bin''" and fs = flags_default
      and nc = None and w = ?wm and e = e1 and nc' = n1]
    m side have "e1 = FATAL" by blast
  moreover
  from visited_damage_is_fatal [where path = "''meta.bin''" and fs = flags_default
      and nc = None and w = ?wh and e = e2 and nc' = n2 and sb = example_superblock]
    h side have "e2 = FATAL" by blast
  ultimately show ?thesis using m h n1 n2 side by simp
qed

subsection \<open>The mapping array and the dirty bitset\<close>

text \<open>
  C6, as the code has it. With damage in the dirty bitset, and none elsewhere, the
  result of \<open>metadata_check\<close> is \<open>NO_ERROR\<close>, the same as without the damage.
\<close>

theorem dirty_bitset_damage_not_observed:
  "check_mappings flags_default
   \<and> disk_superblock (example_device\<lparr>dirty_bits := [Missing_bits (Some 0, Some 10)]\<rparr>) =
       Inr example_superblock
   \<and> 2 \<le> version example_superblock
   \<and> fst (metadata_check ''meta.bin'' flags_default None
        (example_device\<lparr>dirty_bits := [Missing_bits (Some 0, Some 10)]\<rparr>)) =
       Inr (NO_ERROR, Some True)
   \<and> fst (metadata_check ''meta.bin'' flags_default None example_device) =
       Inr (NO_ERROR, Some True)"
  by (simp add: eval_fst example_defs)

text \<open>
  C6, amended. When \<open>check_mappings\<close> is set and the superblock is read,
  \<open>metadata_check\<close> walks the mapping array over \<open>cache_blocks\<close> entries through the
  mapping reporter, so that damage of the mapping array makes the result FATAL; when
  the version is at least 2 and the walk returns, it constructs the dirty bitset, and
  does nothing else with it: the contents of the dirty bitset change neither the result
  nor the trace.
\<close>

theorem mapping_array_walked_dirty_bitset_constructed:
  assumes "file_length w = Inr len" and "\<not> len < 4096"
    and "open_bm_result w READ_ONLY = None" and "superblock_walk w = ([], None)"
    and "disk_superblock w = Inr sb" and "open_tm_result w = None"
    and "check_mappings fs"
  shows "take 6 (ops_of (snd (metadata_check path fs nc w))) =
           [Get_file_length, Open_bm READ_ONLY, Check_superblock (nr_blocks w), Read_superblock,
            Open_tm SUPERBLOCK_LOCATION,
            Check_mapping_array (mapping_root sb) (cache_blocks sb) (version sb)]
    \<and> (snd (mapping_walk w) = None \<and> 2 \<le> version sb \<and> dirty_root sb = Some root \<longrightarrow>
         take 7 (ops_of (snd (metadata_check path fs nc w))) =
           [Get_file_length, Open_bm READ_ONLY, Check_superblock (nr_blocks w), Read_superblock,
            Open_tm SUPERBLOCK_LOCATION,
            Check_mapping_array (mapping_root sb) (cache_blocks sb) (version sb),
            Construct_bitset root (ucast (cache_blocks sb))])
    \<and> (fst (metadata_check path fs nc w) = Inr (e, nc') \<and> fst (mapping_walk w) \<noteq> [] \<longrightarrow>
         e = FATAL)
    \<and> metadata_check path fs nc (w\<lparr>dirty_bits := bits\<rparr>) = metadata_check path fs nc w"
proof -
  have walked: "take 6 (ops_of (snd (metadata_check path fs nc w))) =
           [Get_file_length, Open_bm READ_ONLY, Check_superblock (nr_blocks w), Read_superblock,
            Open_tm SUPERBLOCK_LOCATION,
            Check_mapping_array (mapping_root sb) (cache_blocks sb) (version sb)]"
    using assms by (simp add: ops_metadata_check ops_examine_mappings MD_BLOCK_SIZE_def)
  have constructed: "take 7 (ops_of (snd (metadata_check path fs nc w))) =
           [Get_file_length, Open_bm READ_ONLY, Check_superblock (nr_blocks w), Read_superblock,
            Open_tm SUPERBLOCK_LOCATION,
            Check_mapping_array (mapping_root sb) (cache_blocks sb) (version sb),
            Construct_bitset root (ucast (cache_blocks sb))]"
    if "snd (mapping_walk w) = None" "2 \<le> version sb" "dirty_root sb = Some root"
    using assms that by (simp add: ops_metadata_check ops_examine_mappings MD_BLOCK_SIZE_def)
  have fatal: "e = FATAL"
    if "fst (metadata_check path fs nc w) = Inr (e, nc')" "fst (mapping_walk w) \<noteq> []"
    using metadata_check_cases [OF that(1)] that(2) assms(7) by auto
  from walked constructed fatal metadata_check_ignores_dirty_bits [where path = path and fs = fs
      and nc = nc and w = w and bits = bits]
  show ?thesis by blast
qed

theorem mapping_array_walked_dirty_bitset_constructed_witness:
  "file_length (example_device\<lparr>mapping_walk := ([Missing_mappings ''missing'' (Some 9, Some 10)], None)\<rparr>)
     = Inr 20480 \<and> \<not> (20480::nat) < 4096 \<and> check_mappings flags_default
   \<and> take 7 (ops_of (snd (metadata_check ''meta.bin'' flags_default None
        (example_device\<lparr>mapping_walk := ([Missing_mappings ''missing'' (Some 9, Some 10)], None)\<rparr>)))) =
       [Get_file_length, Open_bm READ_ONLY, Check_superblock 5, Read_superblock, Open_tm 0,
        Check_mapping_array 1 10 2, Construct_bitset 4 10]
   \<and> fst (metadata_check ''meta.bin'' flags_default None
        (example_device\<lparr>mapping_walk := ([Missing_mappings ''missing'' (Some 9, Some 10)], None)\<rparr>)) =
       Inr (FATAL, Some True)"
proof -
  let ?w = "example_device\<lparr>mapping_walk := ([Missing_mappings ''missing'' (Some 9, Some 10)], None)\<rparr>"
  have h: "file_length ?w = Inr 20480" "\<not> (20480::nat) < 4096"
    "open_bm_result ?w READ_ONLY = None" "superblock_walk ?w = ([], None)"
    "disk_superblock ?w = Inr example_superblock" "open_tm_result ?w = None"
    "check_mappings flags_default"
    by (simp_all add: example_defs)
  have side: "snd (mapping_walk ?w) = None" "2 \<le> version example_superblock"
    "dirty_root example_superblock = Some 4" "fst (mapping_walk ?w) \<noteq> []"
    by (simp_all add: example_defs)
  obtain e n where r: "fst (metadata_check ''meta.bin'' flags_default None ?w) = Inr (e, n)"
    and n: "n = Some True"
    by (simp add: eval_fst example_defs)
  from mapping_array_walked_dirty_bitset_constructed [OF h, where path = "''meta.bin''"
      and nc = None and root = 4 and e = e and nc' = n] side r n h(1,2,7)
  show ?thesis
    by (simp add: example_defs SUPERBLOCK_LOCATION_def)
qed

subsection \<open>Clearing NEEDS\_CHECK\<close>

lemma device_writes_append:
  "device_writes fmt (xs @ ys) = device_writes fmt xs @ device_writes fmt ys"
  by (induction fmt xs rule: device_writes.induct) simp_all

lemma device_writes_none:
  "(\<And>sb. Write_superblock sb \<notin> set ds) \<Longrightarrow> device_writes fmt ds = []"
  by (induction fmt ds rule: device_writes.induct) auto

lemma metadata_check_writes_nothing:
  "Op (Write_superblock sb) \<notin> set (snd (metadata_check path fs nc w))"
  unfolding metadata_check_def metadata_check_reporters_def Let_def examine_mappings_def
    examine_hints_def examine_discards_def call_defs
  by (intro notin_bind notin_if notin_case_option notin_case_sum notin_case_prod notin_prims;
      simp add: snd_prims snd_run_walk image_iff)

lemma metadata_check_device_writes:
  "device_writes fmt (ops_of (snd (metadata_check path fs nc w))) = []"
  by (rule device_writes_none) (simp add: Op_in_set [symmetric] metadata_check_writes_nothing)

lemma length_le [simp]: "length (le32 x) = 4" "length (le64 y) = 8"
  by (simp_all add: le32_def le64_def)

lemma le32_clear_flag:
  "le32 (clear_flag fl NEEDS_CHECK) = (hd (le32 fl) AND NOT 1) # tl (le32 fl)"
proof -
  have low: "(ucast (fl AND NOT (push_bit 0 1)) :: 8 word) = ucast fl AND NOT 1"
    by (rule bit_word_eqI) (auto simp: bit_simps dest: bit_imp_le_length)
  have high: "(ucast (drop_bit k (fl AND NOT (push_bit 0 1))) :: 8 word) = ucast (drop_bit k fl)"
    if "0 < k" for k
    using that by (intro bit_word_eqI) (auto simp: bit_simps dest: bit_imp_le_length)
  have h8: "(ucast (drop_bit 8 (fl AND NOT (push_bit 0 1))) :: 8 word) = ucast (drop_bit 8 fl)"
    by (rule high) simp
  have h16: "(ucast (drop_bit 16 (fl AND NOT (push_bit 0 1))) :: 8 word) = ucast (drop_bit 16 fl)"
    by (rule high) simp
  have h24: "(ucast (drop_bit 24 (fl AND NOT (push_bit 0 1))) :: 8 word) = ucast (drop_bit 24 fl)"
    by (rule high) simp
  show ?thesis
    unfolding le32_def clear_flag_def NEEDS_CHECK_def
    by (simp only: low h8 h16 h24 list.sel)
qed

lemma block_frame:
  assumes "length c = 4" and "length c' = 4" and "length m = 8"
  shows "length (c' @ m @ y # t) = length (c @ m @ x # t)"
    and "4 \<le> i \<Longrightarrow> i \<noteq> 12 \<Longrightarrow> (c' @ m @ y # t) ! i = (c @ m @ x # t) ! i"
    and "(c' @ m @ y # t) ! 12 = y" and "(c @ m @ x # t) ! 12 = x"
  using assms by (auto simp: nth_append nth_Cons split: nat.splits)

lemma superblock_block_split:
  "\<exists>t. \<forall>fl. superblock_block fmt (sb\<lparr>flags := fl\<rparr>) =
     le32 (checksum fmt (drop 4 (superblock_block fmt (sb\<lparr>flags := fl\<rparr>)))) @
     (le32 (magic fmt) @ le32 (version sb)) @ hd (le32 fl) # (tl (le32 fl) @ t)"
proof -
  let ?rest = "le64 (mapping_root sb) @ le64 (hint_root sb) @ le64 (discard_root sb) @
     (case dirty_root sb of None \<Rightarrow> [] | Some root \<Rightarrow> le64 root) @
     le32 (cache_blocks sb) @ le64 (discard_nr_blocks sb) @ le32 (policy_hint_size sb) @
     policy_name_bytes (policy_name_width fmt) (policy_name sb)"
  let ?t = "?rest @ replicate (MD_BLOCK_SIZE - 4 - (12 + length ?rest)) 0"
  have "superblock_block fmt (sb\<lparr>flags := fl\<rparr>) =
     le32 (checksum fmt (drop 4 (superblock_block fmt (sb\<lparr>flags := fl\<rparr>)))) @
     (le32 (magic fmt) @ le32 (version sb)) @ hd (le32 fl) # (tl (le32 fl) @ ?t)" for fl
    by (simp add: superblock_block_def superblock_body_def Let_def le32_def)
  then show ?thesis by blast
qed

lemma superblock_block_frame:
  fixes sb :: superblock and fmt :: superblock_format
  defines "b \<equiv> superblock_block fmt sb"
    and "b' \<equiv> superblock_block fmt (sb\<lparr>flags := clear_flag (flags sb) NEEDS_CHECK\<rparr>)"
  shows "length b' = length b"
    and "4 \<le> i \<Longrightarrow> i \<noteq> 12 \<Longrightarrow> b' ! i = b ! i"
    and "b' ! 12 = b ! 12 AND NOT 1"
    and "take 4 b' = le32 (checksum fmt (drop 4 b'))"
proof -
  from superblock_block_split [of fmt sb] obtain t where
    split: "\<And>fl. superblock_block fmt (sb\<lparr>flags := fl\<rparr>) =
       le32 (checksum fmt (drop 4 (superblock_block fmt (sb\<lparr>flags := fl\<rparr>)))) @
       (le32 (magic fmt) @ le32 (version sb)) @ hd (le32 fl) # (tl (le32 fl) @ t)"
    by blast
  let ?m = "le32 (magic fmt) @ le32 (version sb)"
  let ?x = "hd (le32 (flags sb))"
  let ?t = "tl (le32 (flags sb)) @ t"
  have b: "b = le32 (checksum fmt (drop 4 b)) @ ?m @ ?x # ?t"
    using split [of "flags sb"] by (simp add: b_def)
  have b': "b' = le32 (checksum fmt (drop 4 b')) @ ?m @ (?x AND NOT 1) # ?t"
    using split [of "clear_flag (flags sb) NEEDS_CHECK"]
    by (simp add: b'_def le32_clear_flag)
  have len: "length (le32 (checksum fmt (drop 4 b))) = 4"
    "length (le32 (checksum fmt (drop 4 b'))) = 4" "length ?m = 8"
    by simp_all
  show "length b' = length b"
    by (subst b, subst b') (rule block_frame(1) [OF len])
  show "b' ! i = b ! i" if "4 \<le> i" "i \<noteq> 12"
    by (subst b, subst b') (rule block_frame(2) [OF len that])
  have "b' ! 12 = (?x AND NOT 1)"
    by (subst b') (rule block_frame(3) [OF len(1) len(2) len(3)])
  moreover have "b ! 12 = ?x"
    by (subst b) (rule block_frame(4) [OF len(1) len(2) len(3)])
  ultimately show "b' ! 12 = b ! 12 AND NOT 1"
    by simp
  show "take 4 b' = le32 (checksum fmt (drop 4 b'))"
    by (subst b') simp
qed

lemma needs_check_set_is_flag:
  assumes "fst (metadata_check path fs None w) = Inr (e, nc)" and "success fs e"
  shows "\<exists>sb. disk_superblock w = Inr sb \<and> nc = Some (get_flag (flags sb) NEEDS_CHECK)"
  using metadata_check_cases [OF assms(1)] assms(2)
  by (auto simp: success_def split: if_splits)

text \<open>
  C7. After a run of \<open>metadata_check\<close> that returns, \<open>check\<close> calls \<open>clear_needs_check\<close>
  exactly when the result counts as success under the flags,
  \<open>clear_needs_check_on_success\<close> is set and the bit NEEDS_CHECK is set in the flags of
  the superblock on the device: only then is a block manager opened read-write.
  \<open>clear_needs_check\<close> opens the block manager read-write, reads the superblock and
  writes it back with the bit NEEDS_CHECK cleared and nothing else changed. When no call
  throws, this write is the last call of the run, the exit code is 0, and the device
  observes one block write in the whole run, of block 0; otherwise the run writes no
  block. The block written has the length of the block read and agrees with it at
  every offset from 4 on except offset 12, where it differs in bit 0 only; its first 4
  bytes are the checksum of its remainder.
\<close>

theorem clear_needs_check_runs_on_success:
  assumes "stat_result w = Inr info" and "S_ISREG info \<or> S_ISBLK info"
    and "fst (metadata_check path fs None w) = Inr (e, nc)"
  shows "(Op (Open_bm READ_WRITE) \<in> set (snd (check path fs w)) \<longleftrightarrow>
           success fs e \<and> clear_needs_check_on_success fs
           \<and> (\<exists>sb'. disk_superblock w = Inr sb' \<and> get_flag (flags sb') NEEDS_CHECK))
    \<and> snd (check path fs w) =
         Op Stat # snd (metadata_check path fs None w) @
         (if success fs e \<and> clear_needs_check_on_success fs
             \<and> (\<exists>sb'. disk_superblock w = Inr sb' \<and> get_flag (flags sb') NEEDS_CHECK)
          then snd (clear_needs_check path w) else [])
    \<and> (open_bm_result w READ_WRITE = None \<and> disk_superblock w = Inr sb \<longrightarrow>
         snd (clear_needs_check path w) =
           [Op (Open_bm READ_WRITE), Op Read_superblock,
            Op (Write_superblock (sb\<lparr>flags := clear_flag (flags sb) NEEDS_CHECK\<rparr>))])
    \<and> (success fs e \<and> clear_needs_check_on_success fs \<and> disk_superblock w = Inr sb
        \<and> get_flag (flags sb) NEEDS_CHECK \<and> open_bm_result w READ_WRITE = None
        \<and> write_superblock_result w = None \<longrightarrow>
         fst (check path fs w) = Inr 0
         \<and> last (ops_of (snd (check path fs w))) =
             Write_superblock (sb\<lparr>flags := clear_flag (flags sb) NEEDS_CHECK\<rparr>)
         \<and> device_writes fmt (ops_of (snd (check path fs w))) =
             [(SUPERBLOCK_LOCATION,
               superblock_block fmt (sb\<lparr>flags := clear_flag (flags sb) NEEDS_CHECK\<rparr>))])
    \<and> (\<not> (success fs e \<and> clear_needs_check_on_success fs
           \<and> (\<exists>sb'. disk_superblock w = Inr sb' \<and> get_flag (flags sb') NEEDS_CHECK)) \<longrightarrow>
         device_writes fmt (ops_of (snd (check path fs w))) = [])
    \<and> length (superblock_block fmt (sb\<lparr>flags := clear_flag (flags sb) NEEDS_CHECK\<rparr>)) =
        length (superblock_block fmt sb)
    \<and> (length (superblock_body fmt sb) \<le> MD_BLOCK_SIZE - 4 \<longrightarrow>
         length (superblock_block fmt sb) = MD_BLOCK_SIZE)
    \<and> (4 \<le> i \<and> i \<noteq> 12 \<longrightarrow>
         superblock_block fmt (sb\<lparr>flags := clear_flag (flags sb) NEEDS_CHECK\<rparr>) ! i =
         superblock_block fmt sb ! i)
    \<and> superblock_block fmt (sb\<lparr>flags := clear_flag (flags sb) NEEDS_CHECK\<rparr>) ! 12 =
        superblock_block fmt sb ! 12 AND NOT 1
    \<and> take 4 (superblock_block fmt (sb\<lparr>flags := clear_flag (flags sb) NEEDS_CHECK\<rparr>)) =
        le32 (checksum fmt
          (drop 4 (superblock_block fmt (sb\<lparr>flags := clear_flag (flags sb) NEEDS_CHECK\<rparr>))))
    \<and> (get_flag (clear_flag fl NEEDS_CHECK) n \<longleftrightarrow> n \<noteq> NEEDS_CHECK \<and> get_flag fl n)"
proof -
  let ?set = "\<exists>sb'. disk_superblock w = Inr sb' \<and> get_flag (flags sb') NEEDS_CHECK"
  let ?runs = "success fs e \<and> clear_needs_check_on_success fs \<and> ?set"
  let ?sb = "sb\<lparr>flags := clear_flag (flags sb) NEEDS_CHECK\<rparr>"
  have flag: "nc = Some True \<longleftrightarrow> ?set" if "success fs e"
    using needs_check_set_is_flag [OF assms(3) that] by auto
  have assigned: "\<exists>b. nc = Some b" if "success fs e"
    using needs_check_set_assigned [OF assms(3) that] .
  have trace: "snd (check path fs w) =
         Op Stat # snd (metadata_check path fs None w) @
         (if ?runs then snd (clear_needs_check path w) else [])"
    using assms assigned flag by (auto simp: snd_check split: if_splits)
  have opens: "Op (Open_bm READ_WRITE) \<in> set (snd (clear_needs_check path w))"
    by (simp add: snd_clear_needs_check)
  have runs: "Op (Open_bm READ_WRITE) \<in> set (snd (check path fs w)) \<longleftrightarrow> ?runs"
    unfolding trace using opens metadata_check_opens_read_only [of path fs None w]
    by simp
  have does: "snd (clear_needs_check path w) =
           [Op (Open_bm READ_WRITE), Op Read_superblock, Op (Write_superblock ?sb)]"
    if "open_bm_result w READ_WRITE = None" "disk_superblock w = Inr sb"
    using that by (simp add: snd_clear_needs_check)
  have commits: "fst (check path fs w) = Inr 0
         \<and> last (ops_of (snd (check path fs w))) = Write_superblock ?sb
         \<and> device_writes fmt (ops_of (snd (check path fs w))) =
             [(SUPERBLOCK_LOCATION, superblock_block fmt ?sb)]"
    if h: "success fs e" "clear_needs_check_on_success fs" "disk_superblock w = Inr sb"
      "get_flag (flags sb) NEEDS_CHECK" "open_bm_result w READ_WRITE = None"
      "write_superblock_result w = None"
  proof -
    from h have r: ?runs by blast
    from never_NON_FATAL [OF assms(3)] h(1) have e: "e = NO_ERROR"
      by (auto simp: success_def split: if_splits)
    from flag [OF h(1)] r have nc: "nc = Some True" by blast
    have "fst (check path fs w) = Inr 0"
      using assms h e nc by (auto simp: fst_check fst_clear_needs_check)
    moreover have "ops_of (snd (check path fs w)) =
        Stat # ops_of (snd (metadata_check path fs None w)) @
        [Open_bm READ_WRITE, Read_superblock, Write_superblock ?sb]"
      using r by (simp add: trace does [OF h(5) h(3)] ops_of_simps)
    ultimately show ?thesis
      by (simp add: device_writes_append metadata_check_device_writes)
  qed
  have quiet_device: "device_writes fmt (ops_of (snd (check path fs w))) = []" if "\<not> ?runs"
  proof -
    from that have "snd (check path fs w) = Op Stat # snd (metadata_check path fs None w)"
      unfolding trace by auto
    then show ?thesis
      by (simp add: metadata_check_device_writes)
  qed
  have whole: "length (superblock_block fmt sb) = MD_BLOCK_SIZE"
    if "length (superblock_body fmt sb) \<le> MD_BLOCK_SIZE - 4"
    using that by (simp add: superblock_block_def Let_def MD_BLOCK_SIZE_def)
  note frame =
    superblock_block_frame(1) [where fmt = fmt and sb = sb]
    superblock_block_frame(2) [where fmt = fmt and sb = sb and i = i]
    superblock_block_frame(3) [where fmt = fmt and sb = sb]
    superblock_block_frame(4) [where fmt = fmt and sb = sb]
  from runs trace does commits quiet_device whole frame clear_flag_bit [of fl n]
  show ?thesis
    by blast
qed

theorem clear_needs_check_runs_on_success_witness:
  "stat_result example_device = Inr S_IFREG \<and> (S_ISREG S_IFREG \<or> S_ISBLK S_IFREG)
   \<and> fst (metadata_check ''meta.bin''
            (flags_default\<lparr>clear_needs_check_on_success := True\<rparr>) None example_device) =
       Inr (NO_ERROR, Some True)
   \<and> disk_superblock example_device = Inr example_superblock
   \<and> get_flag (flags example_superblock) NEEDS_CHECK
   \<and> open_bm_result example_device READ_WRITE = None
   \<and> write_superblock_result example_device = None
   \<and> Op (Open_bm READ_WRITE) \<in> set (snd (check ''meta.bin''
        (flags_default\<lparr>clear_needs_check_on_success := True\<rparr>) example_device))
   \<and> fst (check ''meta.bin'' (flags_default\<lparr>clear_needs_check_on_success := True\<rparr>)
        example_device) = Inr 0
   \<and> ops_of (snd (check ''meta.bin'' (flags_default\<lparr>clear_needs_check_on_success := True\<rparr>)
        example_device)) =
       [Stat, Get_file_length, Open_bm READ_ONLY, Check_superblock 5, Read_superblock,
        Open_tm 0, Check_mapping_array 1 10 2, Construct_bitset 4 10, Check_hint_array 4 2 10,
        Construct_bitset 3 16, Open_bm READ_WRITE, Read_superblock,
        Write_superblock (example_superblock\<lparr>flags := 0\<rparr>)]
   \<and> device_writes example_format (ops_of (snd (check ''meta.bin''
        (flags_default\<lparr>clear_needs_check_on_success := True\<rparr>) example_device))) =
       [(0, superblock_block example_format (example_superblock\<lparr>flags := 0\<rparr>))]
   \<and> \<not> clear_needs_check_on_success flags_default
   \<and> Op (Open_bm READ_WRITE) \<notin> set (snd (check ''meta.bin'' flags_default example_device))
   \<and> device_writes example_format
        (ops_of (snd (check ''meta.bin'' flags_default example_device))) = []
   \<and> length (superblock_body example_format example_superblock) \<le> MD_BLOCK_SIZE - 4
   \<and> length (superblock_block example_format example_superblock) = 4096
   \<and> length (superblock_block example_format (example_superblock\<lparr>flags := 0\<rparr>)) = 4096
   \<and> superblock_block example_format (example_superblock\<lparr>flags := 0\<rparr>) ! 20 =
       superblock_block example_format example_superblock ! 20
   \<and> superblock_block example_format example_superblock ! 12 = 1
   \<and> superblock_block example_format (example_superblock\<lparr>flags := 0\<rparr>) ! 12 = 0"
proof -
  let ?fs = "flags_default\<lparr>clear_needs_check_on_success := True\<rparr>"
  let ?w = example_device
  have h1: "stat_result ?w = Inr S_IFREG" by (simp add: example_defs)
  have h2: "S_ISREG S_IFREG \<or> S_ISBLK S_IFREG" by simp
  have h3: "fst (metadata_check ''meta.bin'' ?fs None ?w) = Inr (NO_ERROR, Some True)"
    by (simp add: eval_fst example_defs)
  have h3': "fst (metadata_check ''meta.bin'' flags_default None ?w) = Inr (NO_ERROR, Some True)"
    by (simp add: eval_fst example_defs)
  have h4: "open_bm_result ?w READ_WRITE = None"
    "disk_superblock ?w = Inr example_superblock"
    "write_superblock_result ?w = None"
    "get_flag (flags example_superblock) NEEDS_CHECK"
    "success ?fs NO_ERROR" "clear_needs_check_on_success ?fs"
    "\<not> clear_needs_check_on_success flags_default"
    by (simp_all add: example_defs get_flag_def NEEDS_CHECK_def success_def)
  have ops: "ops_of (snd (metadata_check ''meta.bin'' ?fs None ?w)) =
       [Get_file_length, Open_bm READ_ONLY, Check_superblock 5, Read_superblock,
        Open_tm 0, Check_mapping_array 1 10 2, Construct_bitset 4 10, Check_hint_array 4 2 10,
        Construct_bitset 3 16]"
    by (simp add: ops_metadata_check ops_examine_mappings ops_examine_hints ops_examine_discards
        fst_examine_mappings fst_examine_hints fst_examine_discards MD_BLOCK_SIZE_def
        SUPERBLOCK_LOCATION_def example_defs)
  have cleared: "clear_flag (flags example_superblock) NEEDS_CHECK = 0"
    by (simp add: clear_flag_def NEEDS_CHECK_def example_defs)
  have fits: "length (superblock_body example_format example_superblock) \<le> MD_BLOCK_SIZE - 4"
    by (simp add: superblock_body_def policy_name_bytes_def example_format_def
        example_superblock_def MD_BLOCK_SIZE_def)
  have byte: "superblock_block example_format example_superblock ! 12 = 1"
    by (simp add: superblock_block_def superblock_body_def Let_def le32_def nth_append
        example_superblock_def)
  note run = clear_needs_check_runs_on_success [OF h1 h2 h3, where sb = example_superblock
      and fmt = example_format and i = 20 and fl = 0 and n = 0]
  note idle = clear_needs_check_runs_on_success [OF h1 h2 h3', where fmt = example_format
      and sb = example_superblock and i = 20 and fl = 0 and n = 0]
  have a: "Op (Open_bm READ_WRITE) \<in> set (snd (check ''meta.bin'' ?fs ?w))"
    using run h4 by blast
  have "fst (check ''meta.bin'' ?fs ?w) = Inr 0
      \<and> device_writes example_format (ops_of (snd (check ''meta.bin'' ?fs ?w))) =
          [(SUPERBLOCK_LOCATION, superblock_block example_format
             (example_superblock\<lparr>flags := clear_flag (flags example_superblock) NEEDS_CHECK\<rparr>))]"
    using run h4 by blast
  then have b: "fst (check ''meta.bin'' ?fs ?w) = Inr 0
      \<and> device_writes example_format (ops_of (snd (check ''meta.bin'' ?fs ?w))) =
          [(0, superblock_block example_format (example_superblock\<lparr>flags := 0\<rparr>))]"
    unfolding cleared SUPERBLOCK_LOCATION_def .
  have "snd (check ''meta.bin'' ?fs ?w) =
      Op Stat # snd (metadata_check ''meta.bin'' ?fs None ?w) @
      snd (clear_needs_check ''meta.bin'' ?w)"
    "snd (clear_needs_check ''meta.bin'' ?w) =
      [Op (Open_bm READ_WRITE), Op Read_superblock,
       Op (Write_superblock
         (example_superblock\<lparr>flags := clear_flag (flags example_superblock) NEEDS_CHECK\<rparr>))]"
    using run h4 by auto
  then have c: "ops_of (snd (check ''meta.bin'' ?fs ?w)) =
      Stat # ops_of (snd (metadata_check ''meta.bin'' ?fs None ?w)) @
      [Open_bm READ_WRITE, Read_superblock, Write_superblock (example_superblock\<lparr>flags := 0\<rparr>)]"
    by (simp add: ops_of_simps cleared)
  have d: "Op (Open_bm READ_WRITE) \<notin> set (snd (check ''meta.bin'' flags_default ?w))
      \<and> device_writes example_format (ops_of (snd (check ''meta.bin'' flags_default ?w))) = []"
    using idle h4 by blast
  have "length (superblock_block example_format
          (example_superblock\<lparr>flags := clear_flag (flags example_superblock) NEEDS_CHECK\<rparr>)) =
        length (superblock_block example_format example_superblock)
      \<and> length (superblock_block example_format example_superblock) = MD_BLOCK_SIZE
      \<and> superblock_block example_format
          (example_superblock\<lparr>flags := clear_flag (flags example_superblock) NEEDS_CHECK\<rparr>) ! 20 =
          superblock_block example_format example_superblock ! 20
      \<and> superblock_block example_format
          (example_superblock\<lparr>flags := clear_flag (flags example_superblock) NEEDS_CHECK\<rparr>) ! 12 =
          superblock_block example_format example_superblock ! 12 AND NOT 1"
    using run fits by simp
  then have e: "length (superblock_block example_format example_superblock) = 4096
      \<and> length (superblock_block example_format (example_superblock\<lparr>flags := 0\<rparr>)) = 4096
      \<and> superblock_block example_format (example_superblock\<lparr>flags := 0\<rparr>) ! 20 =
          superblock_block example_format example_superblock ! 20
      \<and> superblock_block example_format (example_superblock\<lparr>flags := 0\<rparr>) ! 12 = 0"
    unfolding cleared byte by (simp add: MD_BLOCK_SIZE_def)
  from h1 h2 h3 h4 a b c d e fits byte ops show ?thesis
    by simp
qed

subsection \<open>Exceptions\<close>

text \<open>
  C8. An exception that leaves \<open>check\<close> is caught by \<open>check_with_exception_handling\<close>:
  the exit code is 1 and the message is written to \<open>cerr\<close> unless \<open>quiet\<close> is set. A
  failing \<open>stat\<close>, a path that is neither a regular file nor a block device, and an
  exception that leaves \<open>metadata_check\<close> (such as an I/O error thrown by the walk of
  the mapping array) are such exceptions; no exception leaves
  \<open>check_with_exception_handling\<close>.
\<close>

theorem exceptions_are_caught:
  "(fst (check path fs w) = Inl (Exception msg) \<longrightarrow>
      check_with_exception_handling path fs w =
        (Inr 1, snd (check path fs w) @ (if quiet fs then [] else [Cerr (Line 0 [Str msg])])))
   \<and> (stat_result w = Inl errno_string \<longrightarrow>
        fst (check path fs w) = Inl (Exception (path @ '': '' @ errno_string)))
   \<and> (stat_result w = Inr info \<and> \<not> S_ISREG info \<and> \<not> S_ISBLK info \<longrightarrow>
        fst (check path fs w) =
          Inl (Exception (path @ '': '' @ ''Not a block device or regular file'')))
   \<and> (stat_result w = Inr info \<and> (S_ISREG info \<or> S_ISBLK info)
        \<and> fst (metadata_check path fs None w) = Inl (Exception msg) \<longrightarrow>
        fst (check path fs w) = Inl (Exception msg))
   \<and> (file_length w = Inr len \<and> \<not> len < 4096 \<and> open_bm_result w READ_ONLY = None
        \<and> superblock_walk w = ([], None) \<and> disk_superblock w = Inr sb
        \<and> open_tm_result w = None \<and> check_mappings fs \<and> snd (mapping_walk w) = Some msg \<longrightarrow>
        fst (metadata_check path fs nc w) = Inl (Exception msg))
   \<and> fst (check_with_exception_handling path fs w) \<noteq> Inl (Exception msg')"
proof -
  have caught: "check_with_exception_handling path fs w =
        (Inr 1, snd (check path fs w) @ (if quiet fs then [] else [Cerr (Line 0 [Str msg])]))"
    if "fst (check path fs w) = Inl (Exception msg)"
    using that
    by (simp add: prod_eq_iff fst_check_with_exception_handling
        snd_check_with_exception_handling)
  have stat: "fst (check path fs w) = Inl (Exception (path @ '': '' @ errno_string))"
    if "stat_result w = Inl errno_string"
    using that by (simp add: fst_check)
  have kind: "fst (check path fs w) =
          Inl (Exception (path @ '': '' @ ''Not a block device or regular file''))"
    if "stat_result w = Inr info" "\<not> S_ISREG info" "\<not> S_ISBLK info"
    using that by (simp add: fst_check)
  have propagates: "fst (check path fs w) = Inl (Exception msg)"
    if "stat_result w = Inr info" "S_ISREG info \<or> S_ISBLK info"
      "fst (metadata_check path fs None w) = Inl (Exception msg)"
    using that by (auto simp: fst_check)
  have walk: "fst (metadata_check path fs nc w) = Inl (Exception msg)"
    if "file_length w = Inr len" "\<not> len < 4096" "open_bm_result w READ_ONLY = None"
      "superblock_walk w = ([], None)" "disk_superblock w = Inr sb"
      "open_tm_result w = None" "check_mappings fs" "snd (mapping_walk w) = Some msg"
    using that
    by (simp add: fst_metadata_check fst_metadata_check_reporters fst_examine_mappings
        MD_BLOCK_SIZE_def)
  have never: "fst (check_with_exception_handling path fs w) \<noteq> Inl (Exception msg')"
    by (simp add: fst_check_with_exception_handling split: sum.splits failure.splits)
  from caught stat kind propagates walk never show ?thesis
    by blast
qed

theorem exceptions_are_caught_witness:
  "check_with_exception_handling ''meta.bin'' flags_default
     (example_device\<lparr>stat_result := Inl ''No such file or directory''\<rparr>) =
     (Inr 1, [Op Stat, Cerr (Line 0 [Str ''meta.bin: No such file or directory''])])
   \<and> check_with_exception_handling ''meta.bin'' (flags_default\<lparr>quiet := True\<rparr>)
     (example_device\<lparr>stat_result := Inr S_IFDIR\<rparr>) = (Inr 1, [Op Stat])
   \<and> fst (check_with_exception_handling ''meta.bin'' flags_default
        (example_device\<lparr>mapping_walk := ([], Some ''read error'')\<rparr>)) = Inr 1
   \<and> last (snd (check_with_exception_handling ''meta.bin'' flags_default
        (example_device\<lparr>mapping_walk := ([], Some ''read error'')\<rparr>))) =
       Cerr (Line 0 [Str ''read error''])"
proof -
  let ?w1 = "example_device\<lparr>stat_result := Inl ''No such file or directory''\<rparr>"
  let ?w2 = "example_device\<lparr>stat_result := Inr S_IFDIR\<rparr>"
  let ?w3 = "example_device\<lparr>mapping_walk := ([], Some ''read error'')\<rparr>"
  let ?q = "flags_default\<lparr>quiet := True\<rparr>"
  have s1: "stat_result ?w1 = Inl ''No such file or directory''" by simp
  from exceptions_are_caught [where w = ?w1 and path = "''meta.bin''" and fs = flags_default
      and errno_string = "''No such file or directory''"] s1
  have e1: "fst (check ''meta.bin'' flags_default ?w1) =
      Inl (Exception (''meta.bin'' @ '': '' @ ''No such file or directory''))"
    by blast
  from exceptions_are_caught [where w = ?w1 and path = "''meta.bin''" and fs = flags_default
      and msg = "''meta.bin'' @ '': '' @ ''No such file or directory''"] e1
  have c1: "check_with_exception_handling ''meta.bin'' flags_default ?w1 =
      (Inr 1, snd (check ''meta.bin'' flags_default ?w1) @
        (if quiet flags_default then []
         else [Cerr (Line 0 [Str (''meta.bin'' @ '': '' @ ''No such file or directory'')])]))"
    by blast
  have s2: "stat_result ?w2 = Inr S_IFDIR" "\<not> S_ISREG S_IFDIR" "\<not> S_ISBLK S_IFDIR"
    by simp_all
  from exceptions_are_caught [where w = ?w2 and path = "''meta.bin''" and fs = ?q and info = S_IFDIR] s2
  have e2: "fst (check ''meta.bin'' ?q ?w2) =
      Inl (Exception (''meta.bin'' @ '': '' @ ''Not a block device or regular file''))"
    by blast
  from exceptions_are_caught [where w = ?w2 and path = "''meta.bin''" and fs = ?q
      and msg = "''meta.bin'' @ '': '' @ ''Not a block device or regular file''"] e2
  have c2: "check_with_exception_handling ''meta.bin'' ?q ?w2 =
      (Inr 1, snd (check ''meta.bin'' ?q ?w2) @
        (if quiet ?q then []
         else [Cerr (Line 0 [Str (''meta.bin'' @ '': '' @ ''Not a block device or regular file'')])]))"
    by blast
  have s3: "file_length ?w3 = Inr 20480" "\<not> (20480::nat) < 4096"
    "open_bm_result ?w3 READ_ONLY = None" "superblock_walk ?w3 = ([], None)"
    "disk_superblock ?w3 = Inr example_superblock" "open_tm_result ?w3 = None"
    "check_mappings flags_default" "snd (mapping_walk ?w3) = Some ''read error''"
    "stat_result ?w3 = Inr S_IFREG" "S_ISREG S_IFREG \<or> S_ISBLK S_IFREG"
    by (simp_all add: example_defs)
  from exceptions_are_caught [where w = ?w3 and path = "''meta.bin''" and fs = flags_default and nc = None
      and len = 20480 and sb = example_superblock and msg = "''read error''"] s3
  have m3: "fst (metadata_check ''meta.bin'' flags_default None ?w3) =
      Inl (Exception ''read error'')"
    by blast
  from exceptions_are_caught [where w = ?w3 and path = "''meta.bin''" and fs = flags_default
      and info = S_IFREG and msg = "''read error''"] s3 m3
  have e3: "fst (check ''meta.bin'' flags_default ?w3) = Inl (Exception ''read error'')"
    by blast
  from exceptions_are_caught [where w = ?w3 and path = "''meta.bin''" and fs = flags_default
      and msg = "''read error''"] e3
  have c3: "check_with_exception_handling ''meta.bin'' flags_default ?w3 =
      (Inr 1, snd (check ''meta.bin'' flags_default ?w3) @
        (if quiet flags_default then [] else [Cerr (Line 0 [Str ''read error''])]))"
    by blast
  show ?thesis
    unfolding c1 c2 c3 by (simp add: snd_check flags_default_def)
qed

subsection \<open>The flag quiet\<close>

text \<open>
  C9. Two runs that differ only in \<open>quiet\<close> end the same way: \<open>metadata_check\<close> returns
  the same error state (or throws the same exception), \<open>check_with_exception_handling\<close>
  returns the same exit code, and both make the same calls; only the lines on \<open>cerr\<close>
  can differ.
\<close>

theorem quiet_changes_only_cerr:
  "fst (metadata_check path (fs\<lparr>quiet := q\<rparr>) nc w) = fst (metadata_check path fs nc w)
   \<and> ops_of (snd (metadata_check path (fs\<lparr>quiet := q\<rparr>) nc w)) =
       ops_of (snd (metadata_check path fs nc w))
   \<and> fst (check_with_exception_handling path (fs\<lparr>quiet := q\<rparr>) w) =
       fst (check_with_exception_handling path fs w)
   \<and> ops_of (snd (check_with_exception_handling path (fs\<lparr>quiet := q\<rparr>) w)) =
       ops_of (snd (check_with_exception_handling path fs w))"
proof -
  have "ops_of (snd (check_with_exception_handling path f w)) = ops_of (snd (check path f w))"
    for f
    by (simp add: snd_check_with_exception_handling ops_of_simps
        split: sum.splits failure.splits)
  then show ?thesis
    by (simp add: fst_metadata_check_quiet ops_metadata_check_quiet
        fst_check_with_exception_handling fst_check_quiet ops_check_quiet)
qed

subsection \<open>The bitsets are constructed and never checked\<close>

text \<open>
  C10. When \<open>metadata_check\<close> combines the results, the discard reporter's state is
  still \<open>NO_ERROR\<close>; the contents of the dirty and the discard bitset change neither what
  \<open>metadata_check\<close> returns nor its trace; and the line that the discard reporter writes
  for missing bits is never written.
\<close>

theorem bitsets_are_never_checked:
  "(fst (metadata_check_reporters path fs nc w) = Inr (Inr rs, nc') \<longrightarrow>
      get_error (discard_rep rs) = NO_ERROR)
   \<and> metadata_check path fs nc (w\<lparr>dirty_bits := dirty, discard_bits := discards\<rparr>) =
       metadata_check path fs nc w
   \<and> Cerr (Line i [Str ''missing discard bits '', Keys k])
       \<notin> set (snd (metadata_check path fs nc w))"
proof -
  have untouched: "get_error (discard_rep rs) = NO_ERROR"
    if "fst (metadata_check_reporters path fs nc w) = Inr (Inr rs, nc')"
    using metadata_check_reporters_cases [OF that]
    by (auto simp: reporter_simps dest: examine_discards_cases)
  have "metadata_check path fs nc (w\<lparr>dirty_bits := dirty, discard_bits := discards\<rparr>) =
       metadata_check path fs nc (w\<lparr>dirty_bits := dirty\<rparr>)"
    by (rule metadata_check_ignores_discard_bits)
  then have ignored:
    "metadata_check path fs nc (w\<lparr>dirty_bits := dirty, discard_bits := discards\<rparr>) =
       metadata_check path fs nc w"
    by (simp add: metadata_check_ignores_dirty_bits)
  from untouched ignored no_discard_line [of i k path fs nc w] show ?thesis
    by blast
qed

theorem bitsets_are_never_checked_witness:
  "fst (metadata_check_reporters ''meta.bin'' flags_default None example_device) =
     Inr (Inr \<lparr>sb_rep = reporter_base_new, mapping_rep = reporter_base_new,
               hint_rep = reporter_base_new, discard_rep = reporter_base_new\<rparr>, Some True)
   \<and> check_discards flags_default \<and> discard_root example_superblock \<noteq> 0
   \<and> get_error (discard_rep \<lparr>sb_rep = reporter_base_new, mapping_rep = reporter_base_new,
               hint_rep = reporter_base_new, discard_rep = reporter_base_new\<rparr>) = NO_ERROR"
proof -
  have h: "fst (metadata_check_reporters ''meta.bin'' flags_default None example_device) =
     Inr (Inr \<lparr>sb_rep = reporter_base_new, mapping_rep = reporter_base_new,
               hint_rep = reporter_base_new, discard_rep = reporter_base_new\<rparr>, Some True)"
    by (simp add: eval_fst example_defs)
  from bitsets_are_never_checked [where path = "''meta.bin''" and fs = flags_default
      and nc = None and w = example_device and nc' = "Some True"
      and rs = "\<lparr>sb_rep = reporter_base_new, mapping_rep = reporter_base_new,
               hint_rep = reporter_base_new, discard_rep = reporter_base_new\<rparr>"] h
  show ?thesis
    by (simp add: example_defs)
qed

end
